theory Spec2Isabelle
  imports Main "HOL-Library.Word"
begin

unbundle bit_operations_syntax

section \<open>The keyboard hook of Source/hook\_include.cpp\<close>

text \<open>
  The file is compiled once per hook class; this development embeds the text selected by
  \<^verbatim>\<open>INCLUDE_KEYBD_HOOK\<close>. Globals of the translation unit are the fields of
  one record \<open>hook_state\<close>, passed to and returned by every function. Calls that leave
  the file are made explicit: \<^verbatim>\<open>GetTickCount()\<close> is the argument \<open>now\<close>,
  \<^verbatim>\<open>IsKeyToggledOn(VK_NUMLOCK)\<close> the argument \<open>numlock_on\<close>, the lookup tables
  and the OS version are the fields of \<open>hook_cfg\<close>, and \<^verbatim>\<open>KeyEvent\<close> and
  \<^verbatim>\<open>PostMessage\<close> append to the logs \<open>emitted\<close> and \<open>posted\<close>.
  Key-history file output, the elapsed time and the window title of a history slot have
  no influence on any decision and are left out.
\<close>

subsection \<open>Machine types\<close>

type_synonym vk_type = "8 word"
type_synonym sc_type = "16 word"
type_synonym modLR_type = "8 word"
type_synonym DWORD = "32 word"
type_synonym HotkeyIDType = "16 word"

subsection \<open>Constants of the Windows headers\<close>

named_theorems vk_defs

definition VK_TAB :: vk_type where [vk_defs]: "VK_TAB = 0x09"
definition VK_CLEAR :: vk_type where [vk_defs]: "VK_CLEAR = 0x0C"
definition VK_SHIFT :: vk_type where [vk_defs]: "VK_SHIFT = 0x10"
definition VK_CONTROL :: vk_type where [vk_defs]: "VK_CONTROL = 0x11"
definition VK_MENU :: vk_type where [vk_defs]: "VK_MENU = 0x12"
definition VK_PRIOR :: vk_type where [vk_defs]: "VK_PRIOR = 0x21"
definition VK_NEXT :: vk_type where [vk_defs]: "VK_NEXT = 0x22"
definition VK_END :: vk_type where [vk_defs]: "VK_END = 0x23"
definition VK_HOME :: vk_type where [vk_defs]: "VK_HOME = 0x24"
definition VK_LEFT :: vk_type where [vk_defs]: "VK_LEFT = 0x25"
definition VK_UP :: vk_type where [vk_defs]: "VK_UP = 0x26"
definition VK_RIGHT :: vk_type where [vk_defs]: "VK_RIGHT = 0x27"
definition VK_DOWN :: vk_type where [vk_defs]: "VK_DOWN = 0x28"
definition VK_INSERT :: vk_type where [vk_defs]: "VK_INSERT = 0x2D"
definition VK_DELETE :: vk_type where [vk_defs]: "VK_DELETE = 0x2E"
definition VK_L :: vk_type where [vk_defs]: "VK_L = 0x4C"
definition VK_LWIN :: vk_type where [vk_defs]: "VK_LWIN = 0x5B"
definition VK_RWIN :: vk_type where [vk_defs]: "VK_RWIN = 0x5C"
definition VK_NUMPAD0 :: vk_type where [vk_defs]: "VK_NUMPAD0 = 0x60"
definition VK_NUMPAD1 :: vk_type where [vk_defs]: "VK_NUMPAD1 = 0x61"
definition VK_NUMPAD2 :: vk_type where [vk_defs]: "VK_NUMPAD2 = 0x62"
definition VK_NUMPAD3 :: vk_type where [vk_defs]: "VK_NUMPAD3 = 0x63"
definition VK_NUMPAD4 :: vk_type where [vk_defs]: "VK_NUMPAD4 = 0x64"
definition VK_NUMPAD5 :: vk_type where [vk_defs]: "VK_NUMPAD5 = 0x65"
definition VK_NUMPAD6 :: vk_type where [vk_defs]: "VK_NUMPAD6 = 0x66"
definition VK_NUMPAD7 :: vk_type where [vk_defs]: "VK_NUMPAD7 = 0x67"
definition VK_NUMPAD8 :: vk_type where [vk_defs]: "VK_NUMPAD8 = 0x68"
definition VK_NUMPAD9 :: vk_type where [vk_defs]: "VK_NUMPAD9 = 0x69"
definition VK_DECIMAL :: vk_type where [vk_defs]: "VK_DECIMAL = 0x6E"
definition VK_NUMLOCK :: vk_type where [vk_defs]: "VK_NUMLOCK = 0x90"
definition VK_LSHIFT :: vk_type where [vk_defs]: "VK_LSHIFT = 0xA0"
definition VK_RSHIFT :: vk_type where [vk_defs]: "VK_RSHIFT = 0xA1"
definition VK_LCONTROL :: vk_type where [vk_defs]: "VK_LCONTROL = 0xA2"
definition VK_RCONTROL :: vk_type where [vk_defs]: "VK_RCONTROL = 0xA3"
definition VK_LMENU :: vk_type where [vk_defs]: "VK_LMENU = 0xA4"
definition VK_RMENU :: vk_type where [vk_defs]: "VK_RMENU = 0xA5"

text \<open>\<^verbatim>\<open>'L'\<close> in the source is the character constant 0x4C, written \<open>VK_L\<close> here.\<close>

definition HC_ACTION :: int where [vk_defs]: "HC_ACTION = 0"
definition WM_KEYUP :: DWORD where [vk_defs]: "WM_KEYUP = 0x0101"
definition WM_SYSKEYUP :: DWORD where [vk_defs]: "WM_SYSKEYUP = 0x0105"
definition LLKHF_EXTENDED :: DWORD where [vk_defs]: "LLKHF_EXTENDED = 0x01"
definition LLKHF_INJECTED :: DWORD where [vk_defs]: "LLKHF_INJECTED = 0x10"

subsection \<open>Constants of the program's own headers\<close>

text \<open>
  Modelled from the spec: the header that defines the \<^verbatim>\<open>MOD_*\<close> masks is not
  under src. Section 3 of the spec gives one mask bit per left/right modifier key; the
  values are eight distinct bits of a byte.
\<close>

definition MOD_LCONTROL :: modLR_type where [vk_defs]: "MOD_LCONTROL = 0x01"
definition MOD_RCONTROL :: modLR_type where [vk_defs]: "MOD_RCONTROL = 0x02"
definition MOD_LALT :: modLR_type where [vk_defs]: "MOD_LALT = 0x04"
definition MOD_RALT :: modLR_type where [vk_defs]: "MOD_RALT = 0x08"
definition MOD_LSHIFT :: modLR_type where [vk_defs]: "MOD_LSHIFT = 0x10"
definition MOD_RSHIFT :: modLR_type where [vk_defs]: "MOD_RSHIFT = 0x20"
definition MOD_LWIN :: modLR_type where [vk_defs]: "MOD_LWIN = 0x40"
definition MOD_RWIN :: modLR_type where [vk_defs]: "MOD_RWIN = 0x80"

text \<open>
  Modelled from the spec: the scan codes \<^verbatim>\<open>SC_RSHIFT\<close>, \<^verbatim>\<open>SC_RCONTROL\<close>,
  \<^verbatim>\<open>SC_RALT\<close> and the sentinel \<^verbatim>\<open>KEYIGNORE\<close> are defined outside src.
  Section 4.2 of the spec names the three scan codes as the ones that route a neutral key
  to the right side, section 6 calls the sentinel a constant distinguishable value.
\<close>

definition SC_RSHIFT :: sc_type where [vk_defs]: "SC_RSHIFT = 0x136"
definition SC_RCONTROL :: sc_type where [vk_defs]: "SC_RCONTROL = 0x11D"
definition SC_RALT :: sc_type where [vk_defs]: "SC_RALT = 0x138"
definition KEYIGNORE :: DWORD where [vk_defs]: "KEYIGNORE = 0xFFC3D44F"

text \<open>
  Modelled from the spec: the hotkey id encoding is defined outside src. Section 6 of the
  spec: an entry is \<open>hotkey_id | flags\<close> with the top bit \<^verbatim>\<open>NO_SUPPRESS\<close>;
  section 4.5 lists the built-in alt-tab ids.
\<close>

definition HOTKEY_NO_SUPPRESS :: HotkeyIDType where [vk_defs]: "HOTKEY_NO_SUPPRESS = 0x8000"
definition HOTKEY_ID_MASK :: HotkeyIDType where [vk_defs]: "HOTKEY_ID_MASK = 0x7FFF"
definition HOTKEY_ID_INVALID :: HotkeyIDType where [vk_defs]: "HOTKEY_ID_INVALID = 0x7FFF"
definition HOTKEY_ID_ALT_TAB :: HotkeyIDType where [vk_defs]: "HOTKEY_ID_ALT_TAB = 0x7FFE"
definition HOTKEY_ID_ALT_TAB_SHIFT :: HotkeyIDType where
  [vk_defs]: "HOTKEY_ID_ALT_TAB_SHIFT = 0x7FFD"
definition HOTKEY_ID_ALT_TAB_MENU :: HotkeyIDType where
  [vk_defs]: "HOTKEY_ID_ALT_TAB_MENU = 0x7FFC"
definition HOTKEY_ID_ALT_TAB_AND_MENU :: HotkeyIDType where
  [vk_defs]: "HOTKEY_ID_ALT_TAB_AND_MENU = 0x7FFB"
definition HOTKEY_ID_ALT_TAB_MENU_DISMISS :: HotkeyIDType where
  [vk_defs]: "HOTKEY_ID_ALT_TAB_MENU_DISMISS = 0x7FFA"

definition SHIFT_KEY_WORKAROUND_TIMEOUT :: DWORD where
  [vk_defs]: "SHIFT_KEY_WORKAROUND_TIMEOUT = 22"

subsection \<open>Data\<close>

text \<open>
  Modelled from the spec: the enumeration behind \<^verbatim>\<open>*pForceToggle\<close> is declared
  outside src; the code only compares against \<^verbatim>\<open>NEUTRAL\<close>. The other two values
  are the forced modes of a toggleable key.
\<close>

datatype ToggleValueType = NEUTRAL | ALWAYS_ON | ALWAYS_OFF

datatype was_just_used_type = UNUSED | AS_PREFIX | AS_PREFIX_FOR_HOTKEY

datatype pad_index =
  PAD_DECIMAL | PAD_NUMPAD0 | PAD_NUMPAD1 | PAD_NUMPAD2 | PAD_NUMPAD3 | PAD_NUMPAD4
  | PAD_NUMPAD5 | PAD_NUMPAD6 | PAD_NUMPAD7 | PAD_NUMPAD8 | PAD_NUMPAD9

text \<open>The indices \<^verbatim>\<open>0 .. PAD_TOTAL_COUNT - 1\<close>, in the order the loop visits them.\<close>

definition pad_all :: "pad_index list" where
  "pad_all = [PAD_DECIMAL, PAD_NUMPAD0, PAD_NUMPAD1, PAD_NUMPAD2, PAD_NUMPAD3, PAD_NUMPAD4,
              PAD_NUMPAD5, PAD_NUMPAD6, PAD_NUMPAD7, PAD_NUMPAD8, PAD_NUMPAD9]"

text \<open>
  \<^verbatim>\<open>key_type\<close>: one element of \<^verbatim>\<open>kvk[]\<close> or \<^verbatim>\<open>ksc[]\<close>. The arrays
  \<^verbatim>\<open>ModifierVK\<close>/\<^verbatim>\<open>ModifierSC\<close> with their counts are lists of
  (key, id\_with\_flags) pairs. \<^verbatim>\<open>pForceToggle\<close> is the address of a toggle
  variable, \<open>None\<close> for \<^verbatim>\<open>NULL\<close>.
\<close>

record key_type =
  used_as_prefix :: bool
  used_as_suffix :: bool
  as_modifiersLR :: modLR_type
  pForceToggle :: "nat option"
  ModifierVK :: "(vk_type \<times> HotkeyIDType) list"
  ModifierSC :: "(sc_type \<times> HotkeyIDType) list"
  sc_takes_precedence :: bool
  is_down :: bool
  down_performed_action :: bool
  was_just_used :: was_just_used_type
  it_put_alt_down :: bool
  it_put_shift_down :: bool

text \<open>A pointer into \<^verbatim>\<open>kvk\<close> or \<^verbatim>\<open>ksc\<close>; two pointers are equal iff they
  name the same element of the same array.\<close>

datatype key_ptr = KVK vk_type | KSC sc_type

record KeyHistoryItem =
  h_vk :: vk_type
  h_sc :: sc_type
  h_key_up :: bool
  event_type :: char

text \<open>\<^verbatim>\<open>KBDLLHOOKSTRUCT\<close>. The system delivers virtual-key codes in the range 1 to 254,
  so \<^verbatim>\<open>vkCode\<close> has the width of \<^verbatim>\<open>vk_type\<close> and the casts to it are the
  identity.\<close>

record KBDLLHOOKSTRUCT =
  vkCode :: vk_type
  scanCode :: DWORD
  flags :: DWORD
  time :: DWORD
  dwExtraInfo :: DWORD

datatype KeyEventTypes = KEYDOWN | KEYUP | KEYDOWNANDUP

text \<open>One call of \<^verbatim>\<open>KeyEvent(type, vk, sc)\<close>; \<open>ke_sc\<close> is 0 where the call
  leaves the scan code to its default.\<close>

record key_event =
  ke_type :: KeyEventTypes
  ke_vk :: vk_type
  ke_sc :: sc_type
  ke_extra :: DWORD

text \<open>The verdict of the hook: \<^verbatim>\<open>return 1\<close> suppresses the event,
  \<^verbatim>\<open>return CallNextHookEx(...)\<close> hands it on to the system.\<close>

datatype verdict = Suppressed | PassedOn

record hook_cfg =
  g_vk_to_sc :: "vk_type \<Rightarrow> sc_type"
  Kvkm :: "modLR_type \<Rightarrow> vk_type \<Rightarrow> HotkeyIDType"
  Kscm :: "modLR_type \<Rightarrow> sc_type \<Rightarrow> HotkeyIDType"
  IsWinXPorLater :: bool
  IsWin2000 :: bool
  IsWinNT4 :: bool
  MAX_HISTORY_KEYS :: nat

record hook_state =
  pad_state :: "pad_index \<Rightarrow> bool"
  next_phys_shift_down_is_not_phys :: bool
  prior_vk :: vk_type
  prior_sc :: sc_type
  prior_event_was_key_up :: bool
  prior_event_was_physical :: bool
  prior_event_tickcount :: DWORD
  prior_modifiersLR_physical :: modLR_type
  prior_shift_state :: bool
  prior_lshift_state :: bool
  g_modifiersLR_logical :: modLR_type
  g_modifiersLR_physical :: modLR_type
  g_PhysicalKeyState :: "vk_type \<Rightarrow> bool"
  g_TimeLastInputPhysical :: DWORD
  kvk :: "vk_type \<Rightarrow> key_type"
  ksc :: "sc_type \<Rightarrow> key_type"
  toggle_store :: "nat \<Rightarrow> ToggleValueType"
  pPrefixKey :: "key_ptr option"
  disguise_next_lwin_up :: bool
  disguise_next_rwin_up :: bool
  disguise_next_lalt_up :: bool
  disguise_next_ralt_up :: bool
  alt_tab_menu_is_visible :: bool
  g_KeyHistory :: "nat \<Rightarrow> KeyHistoryItem"
  g_KeyHistoryNext :: nat
  emitted :: "key_event list"
  posted :: "(HotkeyIDType \<times> nat) list"


subsection \<open>Dual-state numpad keys\<close>

definition DualStateNumpadKeyIsDown :: "hook_state \<Rightarrow> bool" where
  "DualStateNumpadKeyIsDown s = list_ex (pad_state s) pad_all"

definition IsDualStateNumpadKey :: "vk_type \<Rightarrow> sc_type \<Rightarrow> bool" where
  "IsDualStateNumpadKey aVK aSC =
     (if aSC AND 0x100 \<noteq> 0 then False
      else if aVK = VK_DELETE \<or> aVK = VK_INSERT \<or> aVK = VK_END \<or> aVK = VK_DOWN
              \<or> aVK = VK_NEXT \<or> aVK = VK_LEFT \<or> aVK = VK_CLEAR \<or> aVK = VK_RIGHT
              \<or> aVK = VK_HOME \<or> aVK = VK_UP \<or> aVK = VK_PRIOR then True
      else False)"

subsection \<open>EventIsPhysical\<close>

text \<open>The keyboard variant. It returns the classification and the state, in which it may
  have consumed \<^verbatim>\<open>next_phys_shift_down_is_not_phys\<close> or stamped
  \<^verbatim>\<open>g_TimeLastInputPhysical\<close>. The tick difference is the wrapping subtraction
  of two \<^verbatim>\<open>DWORD\<close>s.\<close>

definition EventIsPhysical ::
  "DWORD \<Rightarrow> KBDLLHOOKSTRUCT \<Rightarrow> sc_type \<Rightarrow> bool \<Rightarrow> hook_state \<Rightarrow> bool \<times> hook_state" where
  "EventIsPhysical now pEvent sc key_up s =
     (if flags pEvent AND LLKHF_INJECTED \<noteq> 0 then (False, s)
      else if (vkCode pEvent = VK_LSHIFT \<or> vkCode pEvent = VK_SHIFT) \<and> \<not> key_up then
        (if next_phys_shift_down_is_not_phys s \<and> \<not> DualStateNumpadKeyIsDown s
         then (False, s\<lparr>next_phys_shift_down_is_not_phys := False\<rparr>)
         else if prior_event_was_key_up s \<and> IsDualStateNumpadKey (prior_vk s) (prior_sc s)
                 \<and> now - prior_event_tickcount s < SHIFT_KEY_WORKAROUND_TIMEOUT
         then (False, s)
         else (True, s\<lparr>g_TimeLastInputPhysical := time pEvent\<rparr>))
      else (True, s\<lparr>g_TimeLastInputPhysical := time pEvent\<rparr>))"

subsection \<open>UpdateModifierState\<close>

text \<open>
  Every \<^verbatim>\<open>case\<close> of the switch is the same block of statements over a mask bit
  \<open>m\<close>, the side-specific key \<open>vk_side\<close> and, for shift, control and alt, the neutral
  key with the key of the other side (\<open>None\<close> for the two Windows keys, which have no
  neutral entry). \<open>modifier_case\<close> is that block; \<open>UpdateModifierState\<close> instantiates
  it once per \<^verbatim>\<open>case\<close> label, in the order of the source.
\<close>

definition modifier_case ::
  "DWORD \<Rightarrow> KBDLLHOOKSTRUCT \<Rightarrow> sc_type \<Rightarrow> bool \<Rightarrow> bool \<Rightarrow> modLR_type \<Rightarrow> vk_type
    \<Rightarrow> (vk_type \<times> vk_type) option \<Rightarrow> hook_state \<Rightarrow> hook_state" where
  "modifier_case now pEvent sc key_up aIsSuppressed m vk_side neutral s =
     (if key_up then
        (let s1 = (if \<not> aIsSuppressed
                   then s\<lparr>g_modifiersLR_logical := g_modifiersLR_logical s AND NOT m\<rparr> else s);
             r = EventIsPhysical now pEvent sc key_up s1;
             s2 = snd r
         in if fst r then
              (let s3 = s2\<lparr>g_modifiersLR_physical := g_modifiersLR_physical s2 AND NOT m\<rparr>;
                   s4 = s3\<lparr>g_PhysicalKeyState := (g_PhysicalKeyState s3)(vk_side := False)\<rparr>
               in case neutral of
                    None \<Rightarrow> s4
                  | Some (vk_neutral, vk_other) \<Rightarrow>
                      s4\<lparr>g_PhysicalKeyState :=
                           (g_PhysicalKeyState s4)(vk_neutral := g_PhysicalKeyState s4 vk_other)\<rparr>)
            else s2)
      else
        (let s1 = (if \<not> aIsSuppressed
                   then s\<lparr>g_modifiersLR_logical := g_modifiersLR_logical s OR m\<rparr> else s);
             r = EventIsPhysical now pEvent sc key_up s1;
             s2 = snd r
         in if fst r then
              (let s3 = s2\<lparr>g_modifiersLR_physical := g_modifiersLR_physical s2 OR m\<rparr>
               in case neutral of
                    None \<Rightarrow> s3\<lparr>g_PhysicalKeyState := (g_PhysicalKeyState s3)(vk_side := True)\<rparr>
                  | Some (vk_neutral, vk_other) \<Rightarrow>
                      s3\<lparr>g_PhysicalKeyState :=
                           (g_PhysicalKeyState s3)(vk_neutral := True, vk_side := True)\<rparr>)
            else s2))"

definition UpdateModifierState ::
  "DWORD \<Rightarrow> KBDLLHOOKSTRUCT \<Rightarrow> sc_type \<Rightarrow> bool \<Rightarrow> bool \<Rightarrow> hook_state \<Rightarrow> hook_state" where
  "UpdateModifierState now pEvent sc key_up aIsSuppressed s =
     (let blk = modifier_case now pEvent sc key_up aIsSuppressed; v = vkCode pEvent in
      if v = VK_LSHIFT then blk MOD_LSHIFT VK_LSHIFT (Some (VK_SHIFT, VK_RSHIFT)) s
      else if v = VK_RSHIFT then blk MOD_RSHIFT VK_RSHIFT (Some (VK_SHIFT, VK_LSHIFT)) s
      else if v = VK_LCONTROL then blk MOD_LCONTROL VK_LCONTROL (Some (VK_CONTROL, VK_RCONTROL)) s
      else if v = VK_RCONTROL then blk MOD_RCONTROL VK_RCONTROL (Some (VK_CONTROL, VK_LCONTROL)) s
      else if v = VK_LMENU then blk MOD_LALT VK_LMENU (Some (VK_MENU, VK_RMENU)) s
      else if v = VK_RMENU then blk MOD_RALT VK_RMENU (Some (VK_MENU, VK_LMENU)) s
      else if v = VK_LWIN then blk MOD_LWIN VK_LWIN None s
      else if v = VK_RWIN then blk MOD_RWIN VK_RWIN None s
      else if v = VK_SHIFT then
        (if sc = SC_RSHIFT then blk MOD_RSHIFT VK_RSHIFT (Some (VK_SHIFT, VK_LSHIFT)) s
         else blk MOD_LSHIFT VK_LSHIFT (Some (VK_SHIFT, VK_RSHIFT)) s)
      else if v = VK_CONTROL then
        (if sc = SC_RCONTROL then blk MOD_RCONTROL VK_RCONTROL (Some (VK_CONTROL, VK_LCONTROL)) s
         else blk MOD_LCONTROL VK_LCONTROL (Some (VK_CONTROL, VK_RCONTROL)) s)
      else if v = VK_MENU then
        (if sc = SC_RALT then blk MOD_RALT VK_RMENU (Some (VK_MENU, VK_LMENU)) s
         else blk MOD_LALT VK_LMENU (Some (VK_MENU, VK_RMENU)) s)
      else s)"

subsection \<open>UpdateKeyState\<close>

text \<open>The last five assignments run in the order of the source: \<^verbatim>\<open>prior_vk\<close>,
  \<^verbatim>\<open>prior_sc\<close> and \<^verbatim>\<open>prior_event_was_key_up\<close> already hold the current
  event when \<^verbatim>\<open>EventIsPhysical\<close> is called for \<^verbatim>\<open>prior_event_was_physical\<close>.\<close>

definition UpdateKeyState ::
  "DWORD \<Rightarrow> KBDLLHOOKSTRUCT \<Rightarrow> sc_type \<Rightarrow> bool \<Rightarrow> bool \<Rightarrow> hook_state \<Rightarrow> hook_state" where
  "UpdateKeyState now pEvent sc key_up aIsSuppressed s =
     (let s1 =
        (if prior_event_was_physical s \<and> (prior_vk s = VK_LSHIFT \<or> prior_vk s = VK_SHIFT)
            \<and> now - prior_event_tickcount s < SHIFT_KEY_WORKAROUND_TIMEOUT
         then
           (let current_is_dual_state = IsDualStateNumpadKey (vkCode pEvent) sc;
                fix_it = ((\<not> prior_event_was_key_up s \<and> DualStateNumpadKeyIsDown s)
                          \<or> (prior_event_was_key_up s \<and> key_up \<and> current_is_dual_state));
                sa = (if fix_it then s\<lparr>next_phys_shift_down_is_not_phys := True\<rparr> else s)
            in if fix_it \<or> (prior_event_was_key_up s \<and> current_is_dual_state)
               then sa\<lparr>g_modifiersLR_physical := prior_modifiersLR_physical sa,
                       g_PhysicalKeyState := (g_PhysicalKeyState sa)
                          (VK_SHIFT := prior_shift_state sa, VK_LSHIFT := prior_lshift_state sa)\<rparr>
               else sa)
         else s);
        s2 = s1\<lparr>prior_modifiersLR_physical := g_modifiersLR_physical s1,
                prior_shift_state := g_PhysicalKeyState s1 VK_SHIFT,
                prior_lshift_state := g_PhysicalKeyState s1 VK_LSHIFT\<rparr>;
        s3 = (if as_modifiersLR (kvk s2 (vkCode pEvent)) \<noteq> 0
              then UpdateModifierState now pEvent sc key_up aIsSuppressed s2 else s2);
        s4 = s3\<lparr>prior_vk := vkCode pEvent, prior_sc := sc, prior_event_was_key_up := key_up\<rparr>;
        r = EventIsPhysical now pEvent sc key_up s4
      in (snd r)\<lparr>prior_event_was_physical := fst r, prior_event_tickcount := now\<rparr>)"

subsection \<open>Emissions\<close>

text \<open>
  Modelled from the spec: \<^verbatim>\<open>KeyEvent\<close> is not under src. Section 6 of the spec:
  \<open>emit(kind, vk, scan)\<close>, and emissions carry the fixed ignore sentinel in the
  extra-info field. A call is recorded at the end of \<open>emitted\<close>. The system hands every
  emitted event back to the hook as an event of its own, tagged \<^verbatim>\<open>KEYIGNORE\<close>;
  here that is a separate call of \<open>LowLevelKeybdProc\<close>, not one nested in the call
  that emits.
\<close>

definition KeyEvent :: "KeyEventTypes \<Rightarrow> vk_type \<Rightarrow> sc_type \<Rightarrow> hook_state \<Rightarrow> hook_state" where
  "KeyEvent aEventType aVK aSC s =
     s\<lparr>emitted := emitted s @ [\<lparr>ke_type = aEventType, ke_vk = aVK, ke_sc = aSC,
                                 ke_extra = KEYIGNORE\<rparr>]\<rparr>"

definition set_event_type :: "nat \<Rightarrow> char \<Rightarrow> hook_state \<Rightarrow> hook_state" where
  "set_event_type pKeyHistoryCurr c s =
     s\<lparr>g_KeyHistory := (g_KeyHistory s)
          (pKeyHistoryCurr := (g_KeyHistory s pKeyHistoryCurr)\<lparr>event_type := c\<rparr>)\<rparr>"

subsection \<open>SuppressThisKeyFunc and AllowIt\<close>

definition SuppressThisKeyFunc ::
  "DWORD \<Rightarrow> KBDLLHOOKSTRUCT \<Rightarrow> sc_type \<Rightarrow> bool \<Rightarrow> nat \<Rightarrow> hook_state \<Rightarrow> verdict \<times> hook_state" where
  "SuppressThisKeyFunc now pEvent sc key_up pKeyHistoryCurr s =
     (let s1 = (if event_type (g_KeyHistory s pKeyHistoryCurr) = CHR '' ''
                then set_event_type pKeyHistoryCurr CHR ''s'' s else s);
          s2 = (if vkCode pEvent = VK_NUMLOCK \<and> \<not> key_up \<and> dwExtraInfo pEvent \<noteq> KEYIGNORE
                then KeyEvent KEYDOWN VK_NUMLOCK 0
                       (KeyEvent KEYUP VK_NUMLOCK 0
                         (KeyEvent KEYDOWN VK_NUMLOCK 0
                           (KeyEvent KEYUP VK_NUMLOCK 0 s1)))
                else s1)
      in (Suppressed, UpdateKeyState now pEvent sc key_up True s2))"

text \<open>The three nested \<^verbatim>\<open>if\<close>s that open \<^verbatim>\<open>AllowIt\<close>.\<close>

definition toggle_is_forced :: "KBDLLHOOKSTRUCT \<Rightarrow> hook_state \<Rightarrow> bool" where
  "toggle_is_forced pEvent s =
     (if dwExtraInfo pEvent \<noteq> KEYIGNORE then
        (case pForceToggle (kvk s (vkCode pEvent)) of
           None \<Rightarrow> False
         | Some p \<Rightarrow> toggle_store s p \<noteq> NEUTRAL)
      else False)"

definition win_l_reset :: "hook_cfg \<Rightarrow> KBDLLHOOKSTRUCT \<Rightarrow> bool \<Rightarrow> hook_state \<Rightarrow> hook_state" where
  "win_l_reset cfg pEvent key_up s =
     (if vkCode pEvent = VK_L \<and> \<not> key_up
         \<and> (g_modifiersLR_logical s = MOD_LWIN \<or> g_modifiersLR_logical s = MOD_RWIN
            \<or> g_modifiersLR_logical s = (MOD_RWIN OR MOD_RWIN))
         \<and> IsWinXPorLater cfg
      then s\<lparr>g_modifiersLR_logical := 0, g_modifiersLR_physical := 0,
             g_PhysicalKeyState := (g_PhysicalKeyState s)
               (VK_RWIN := False, VK_LWIN := False, vkCode pEvent := False)\<rparr>
      else s)"

definition ctrl_alt_del_reset ::
  "hook_cfg \<Rightarrow> KBDLLHOOKSTRUCT \<Rightarrow> bool \<Rightarrow> hook_state \<Rightarrow> hook_state" where
  "ctrl_alt_del_reset cfg pEvent key_up s =
     (if (vkCode pEvent = VK_DELETE \<or> vkCode pEvent = VK_DECIMAL) \<and> \<not> key_up
         \<and> g_modifiersLR_physical s AND (MOD_LCONTROL OR MOD_RCONTROL) \<noteq> 0
         \<and> g_modifiersLR_physical s AND (MOD_LALT OR MOD_RALT) \<noteq> 0
         \<and> g_modifiersLR_physical s AND (MOD_LSHIFT OR MOD_RSHIFT) = 0
         \<and> (IsWin2000 cfg \<or> IsWinNT4 cfg)
      then s\<lparr>g_modifiersLR_logical := 0, g_modifiersLR_physical := 0,
             g_PhysicalKeyState := (g_PhysicalKeyState s)
               (VK_RMENU := False, VK_LMENU := False, VK_RCONTROL := False,
                VK_LCONTROL := False, vkCode pEvent := False)\<rparr>
      else s)"

definition AllowIt ::
  "hook_cfg \<Rightarrow> DWORD \<Rightarrow> KBDLLHOOKSTRUCT \<Rightarrow> sc_type \<Rightarrow> bool \<Rightarrow> nat \<Rightarrow> bool \<Rightarrow> hook_state
    \<Rightarrow> verdict \<times> hook_state" where
  "AllowIt cfg now pEvent sc key_up pKeyHistoryCurr DisguiseWinAlt s =
     (if toggle_is_forced pEvent s
      then SuppressThisKeyFunc now pEvent sc key_up pKeyHistoryCurr s
      else
        (let s1 = UpdateKeyState now pEvent sc key_up False s;
             s2 = win_l_reset cfg pEvent key_up s1;
             s3 = ctrl_alt_del_reset cfg pEvent key_up s2
         in if as_modifiersLR (kvk s3 (vkCode pEvent)) = 0 then (PassedOn, s3)
            else
              (let s4 = (if alt_tab_menu_is_visible s3
                            \<and> (vkCode pEvent = VK_MENU \<or> vkCode pEvent = VK_LMENU
                               \<or> vkCode pEvent = VK_RMENU)
                            \<and> key_up
                            \<and> event_type (g_KeyHistory s3 pKeyHistoryCurr) \<noteq> CHR ''h''
                            \<and> event_type (g_KeyHistory s3 pKeyHistoryCurr) \<noteq> CHR ''s''
                         then s3\<lparr>alt_tab_menu_is_visible := False\<rparr> else s3)
               in if DisguiseWinAlt \<and> key_up
                     \<and> (vkCode pEvent = VK_LWIN \<or> vkCode pEvent = VK_RWIN
                        \<or> vkCode pEvent = VK_LMENU \<or> vkCode pEvent = VK_RMENU
                        \<or> vkCode pEvent = VK_MENU)
                  then
                    (let s5 = KeyEvent KEYDOWN VK_SHIFT 0 s4;
                         s6 = KeyEvent (if key_up then KEYUP else KEYDOWN) (vkCode pEvent) sc s5;
                         s7 = KeyEvent KEYUP VK_SHIFT 0 s6;
                         s8 = (if event_type (g_KeyHistory s7 pKeyHistoryCurr) \<noteq> CHR ''h''
                               then set_event_type pKeyHistoryCurr CHR ''s'' s7 else s7)
                     in (Suppressed, s8))
                  else (PassedOn, s4))))"


subsection \<open>Key records behind pointers\<close>

fun deref :: "hook_state \<Rightarrow> key_ptr \<Rightarrow> key_type" where
  "deref s (KVK v) = kvk s v"
| "deref s (KSC c) = ksc s c"

fun upd_key :: "key_ptr \<Rightarrow> (key_type \<Rightarrow> key_type) \<Rightarrow> hook_state \<Rightarrow> hook_state" where
  "upd_key (KVK v) f s = s\<lparr>kvk := (kvk s)(v := f (kvk s v))\<rparr>"
| "upd_key (KSC c) f s = s\<lparr>ksc := (ksc s)(c := f (ksc s c))\<rparr>"

text \<open>A write through \<^verbatim>\<open>pPrefixKey\<close>. The source performs such writes only
  where the pointer is known to be non-null.\<close>

definition upd_prefix :: "(key_type \<Rightarrow> key_type) \<Rightarrow> hook_state \<Rightarrow> hook_state" where
  "upd_prefix f s = (case pPrefixKey s of None \<Rightarrow> s | Some p \<Rightarrow> upd_key p f s)"

text \<open>\<^verbatim>\<open>pThisKey->pForceToggle != NULL && *pThisKey->pForceToggle == NEUTRAL\<close>\<close>

definition toggle_neutral :: "hook_state \<Rightarrow> key_type \<Rightarrow> bool" where
  "toggle_neutral s k =
     (case pForceToggle k of None \<Rightarrow> False | Some p \<Rightarrow> toggle_store s p = NEUTRAL)"

subsection \<open>The locals of one call of LowLevelKeybdProc\<close>

record locals =
  l_cfg :: hook_cfg
  l_now :: DWORD
  l_pEvent :: KBDLLHOOKSTRUCT
  l_vk :: vk_type
  l_sc :: sc_type
  l_key_up :: bool
  l_pKeyHistoryCurr :: nat
  l_pThisKey :: key_ptr

text \<open>The three return macros of the keyboard hook.\<close>

definition AllowKeyToGoToSystem :: "locals \<Rightarrow> hook_state \<Rightarrow> verdict \<times> hook_state" where
  "AllowKeyToGoToSystem l s =
     AllowIt (l_cfg l) (l_now l) (l_pEvent l) (l_sc l) (l_key_up l) (l_pKeyHistoryCurr l) False s"

definition AllowKeyToGoToSystemButDisguiseWinAlt ::
  "locals \<Rightarrow> hook_state \<Rightarrow> verdict \<times> hook_state" where
  "AllowKeyToGoToSystemButDisguiseWinAlt l s =
     AllowIt (l_cfg l) (l_now l) (l_pEvent l) (l_sc l) (l_key_up l) (l_pKeyHistoryCurr l) True s"

definition SuppressThisKey :: "locals \<Rightarrow> hook_state \<Rightarrow> verdict \<times> hook_state" where
  "SuppressThisKey l s =
     SuppressThisKeyFunc (l_now l) (l_pEvent l) (l_sc l) (l_key_up l) (l_pKeyHistoryCurr l) s"

text \<open>The return expression shared by Case 1, Case 3 and Case 4: allow a modifier and a
  toggleable key in neutral mode, suppress any other key.\<close>

definition allow_modifier_or_neutral_toggle :: "locals \<Rightarrow> hook_state \<Rightarrow> verdict \<times> hook_state" where
  "allow_modifier_or_neutral_toggle l s =
     (if as_modifiersLR (deref s (l_pThisKey l)) \<noteq> 0 \<or> toggle_neutral s (deref s (l_pThisKey l))
      then AllowKeyToGoToSystem l s else SuppressThisKey l s)"

subsection \<open>The head of LowLevelKeybdProc: history, numpad and alt-tab tracking\<close>

definition normalize_sc :: "hook_cfg \<Rightarrow> KBDLLHOOKSTRUCT \<Rightarrow> sc_type" where
  "normalize_sc cfg pEvent =
     (let sc0 = (ucast (scanCode pEvent) :: sc_type);
          sc1 = (if vkCode pEvent \<noteq> 0 \<and> sc0 = 0 then g_vk_to_sc cfg (vkCode pEvent) else sc0);
          sc2 = sc1 AND 0xFF
      in if flags pEvent AND LLKHF_EXTENDED \<noteq> 0 then sc2 OR 0x100 else sc2)"

definition new_history_item ::
  "hook_cfg \<Rightarrow> KBDLLHOOKSTRUCT \<Rightarrow> sc_type \<Rightarrow> bool \<Rightarrow> hook_state \<Rightarrow> hook_state" where
  "new_history_item cfg pEvent sc key_up s =
     (let cur = g_KeyHistoryNext s;
          nxt = (if cur + 1 \<ge> MAX_HISTORY_KEYS cfg then 0 else cur + 1)
      in s\<lparr>g_KeyHistoryNext := nxt,
           g_KeyHistory := (g_KeyHistory s)
             (cur := \<lparr>h_vk = vkCode pEvent, h_sc = sc, h_key_up = key_up,
                      event_type = (if dwExtraInfo pEvent = KEYIGNORE then CHR ''i''
                                    else CHR '' '')\<rparr>)\<rparr>)"

definition pad_of_vk :: "vk_type \<Rightarrow> pad_index option" where
  "pad_of_vk vk =
     (if vk = VK_DELETE \<or> vk = VK_DECIMAL then Some PAD_DECIMAL
      else if vk = VK_INSERT \<or> vk = VK_NUMPAD0 then Some PAD_NUMPAD0
      else if vk = VK_END \<or> vk = VK_NUMPAD1 then Some PAD_NUMPAD1
      else if vk = VK_DOWN \<or> vk = VK_NUMPAD2 then Some PAD_NUMPAD2
      else if vk = VK_NEXT \<or> vk = VK_NUMPAD3 then Some PAD_NUMPAD3
      else if vk = VK_LEFT \<or> vk = VK_NUMPAD4 then Some PAD_NUMPAD4
      else if vk = VK_CLEAR \<or> vk = VK_NUMPAD5 then Some PAD_NUMPAD5
      else if vk = VK_RIGHT \<or> vk = VK_NUMPAD6 then Some PAD_NUMPAD6
      else if vk = VK_HOME \<or> vk = VK_NUMPAD7 then Some PAD_NUMPAD7
      else if vk = VK_UP \<or> vk = VK_NUMPAD8 then Some PAD_NUMPAD8
      else if vk = VK_PRIOR \<or> vk = VK_NUMPAD9 then Some PAD_NUMPAD9
      else None)"

definition track_pad_state :: "bool \<Rightarrow> vk_type \<Rightarrow> sc_type \<Rightarrow> bool \<Rightarrow> hook_state \<Rightarrow> hook_state" where
  "track_pad_state numlock_on vk sc key_up s =
     (if sc AND 0x100 = 0 \<and> numlock_on then
        (case pad_of_vk vk of
           None \<Rightarrow> s
         | Some p \<Rightarrow> s\<lparr>pad_state := (pad_state s)(p := \<not> key_up)\<rparr>)
      else s)"

text \<open>The heuristic of lines 967-970 that marks the alt-tab menu visible.\<close>

definition alt_tab_menu_heuristic :: "vk_type \<Rightarrow> bool \<Rightarrow> hook_state \<Rightarrow> hook_state" where
  "alt_tab_menu_heuristic vk key_up s =
     (if vk = VK_TAB \<and> \<not> key_up \<and> \<not> alt_tab_menu_is_visible s
         \<and> (g_modifiersLR_logical s AND MOD_LALT \<noteq> 0 \<or> g_modifiersLR_logical s AND MOD_RALT \<noteq> 0)
         \<and> g_modifiersLR_logical s AND MOD_LCONTROL = 0
         \<and> g_modifiersLR_logical s AND MOD_RCONTROL = 0
      then s\<lparr>alt_tab_menu_is_visible := True\<rparr> else s)"

definition track_physical_key ::
  "DWORD \<Rightarrow> KBDLLHOOKSTRUCT \<Rightarrow> sc_type \<Rightarrow> bool \<Rightarrow> hook_state \<Rightarrow> hook_state" where
  "track_physical_key now pEvent sc key_up s =
     (if as_modifiersLR (kvk s (vkCode pEvent)) = 0 then
        (let r = EventIsPhysical now pEvent sc key_up s
         in if fst r
            then (snd r)\<lparr>g_PhysicalKeyState :=
                           (g_PhysicalKeyState (snd r))(vkCode pEvent := \<not> key_up)\<rparr>
            else snd r)
      else s)"

subsection \<open>The armed disguise of a Windows or Alt key-up\<close>

definition disguise_is_armed :: "vk_type \<Rightarrow> bool \<Rightarrow> hook_state \<Rightarrow> bool" where
  "disguise_is_armed vk key_up s =
     (key_up \<and> ((disguise_next_lwin_up s \<and> vk = VK_LWIN) \<or> (disguise_next_rwin_up s \<and> vk = VK_RWIN)
                \<or> (disguise_next_lalt_up s \<and> (vk = VK_LMENU \<or> vk = VK_MENU))
                \<or> (disguise_next_ralt_up s \<and> vk = VK_RMENU)))"

definition clear_disguise_flag :: "vk_type \<Rightarrow> hook_state \<Rightarrow> hook_state" where
  "clear_disguise_flag vk s =
     (if vk = VK_LWIN then s\<lparr>disguise_next_lwin_up := False\<rparr>
      else if vk = VK_RWIN then s\<lparr>disguise_next_rwin_up := False\<rparr>
      else if vk = VK_MENU \<or> vk = VK_LMENU then s\<lparr>disguise_next_lalt_up := False\<rparr>
      else if vk = VK_RMENU then s\<lparr>disguise_next_ralt_up := False\<rparr>
      else s)"

definition disguised_key_up :: "locals \<Rightarrow> hook_state \<Rightarrow> verdict \<times> hook_state" where
  "disguised_key_up l s =
     (let s1 = clear_disguise_flag (l_vk l) s;
          s2 = KeyEvent KEYDOWN VK_SHIFT 0 s1;
          s3 = KeyEvent KEYUP (l_vk l) (l_sc l) s2;
          s4 = KeyEvent KEYUP VK_SHIFT 0 s3
      in SuppressThisKey l s4)"


subsection \<open>Case 4: looking the hotkey up\<close>

text \<open>\<^verbatim>\<open>GET_HOTKEY_ID_AND_FLAGS\<close> assigns the pair (\<^verbatim>\<open>hotkey_id\<close>,
  \<^verbatim>\<open>no_suppress\<close>).\<close>

definition GET_HOTKEY_ID_AND_FLAGS :: "HotkeyIDType \<Rightarrow> HotkeyIDType \<times> bool" where
  "GET_HOTKEY_ID_AND_FLAGS id_with_flags =
     (id_with_flags AND HOTKEY_ID_MASK, id_with_flags AND HOTKEY_NO_SUPPRESS \<noteq> 0)"

text \<open>The two \<^verbatim>\<open>for\<close> loops over \<^verbatim>\<open>ModifierVK\<close> and \<^verbatim>\<open>ModifierSC\<close>:
  each stops at the first entry whose key is down, rebinds \<^verbatim>\<open>pPrefixKey\<close> to that
  key's record and marks it. Nothing is written before the match, so the loop is a
  \<open>find\<close>.\<close>

definition prefix_lookup_vk ::
  "locals \<Rightarrow> hook_state \<Rightarrow> (HotkeyIDType \<times> bool) \<times> hook_state" where
  "prefix_lookup_vk l s =
     (case find (\<lambda>m. is_down (kvk s (fst m))) (ModifierVK (deref s (l_pThisKey l))) of
        None \<Rightarrow> ((HOTKEY_ID_INVALID, False), s)
      | Some m \<Rightarrow>
          (let s1 = s\<lparr>pPrefixKey := Some (KVK (fst m))\<rparr>;
               s2 = upd_prefix (\<lambda>k. k\<lparr>was_just_used := AS_PREFIX_FOR_HOTKEY\<rparr>) s1
           in (GET_HOTKEY_ID_AND_FLAGS (snd m), s2)))"

definition prefix_lookup_sc ::
  "locals \<Rightarrow> hook_state \<Rightarrow> (HotkeyIDType \<times> bool) option \<times> hook_state" where
  "prefix_lookup_sc l s =
     (case find (\<lambda>m. is_down (ksc s (fst m))) (ModifierSC (deref s (l_pThisKey l))) of
        None \<Rightarrow> (None, s)
      | Some m \<Rightarrow>
          (let s1 = s\<lparr>pPrefixKey := Some (KSC (fst m))\<rparr>;
               s2 = upd_prefix (\<lambda>k. k\<lparr>was_just_used := AS_PREFIX_FOR_HOTKEY\<rparr>) s1
           in (Some (GET_HOTKEY_ID_AND_FLAGS (snd m)), s2)))"

definition prefix_lookup ::
  "locals \<Rightarrow> hook_state \<Rightarrow> (HotkeyIDType \<times> bool) \<times> hook_state" where
  "prefix_lookup l s =
     (let r1 = prefix_lookup_vk l s in
      if fst (fst r1) = HOTKEY_ID_INVALID then
        (let r2 = prefix_lookup_sc l (snd r1)
         in case fst r2 of None \<Rightarrow> (fst r1, snd r2) | Some hk \<Rightarrow> (hk, snd r2))
      else r1)"

text \<open>The alt-tab section for a suffix of the held prefix (lines 1337-1433); it is only
  entered on a key-down with a non-null \<^verbatim>\<open>pPrefixKey\<close>.\<close>

definition prefixed_alt_tab :: "locals \<Rightarrow> HotkeyIDType \<Rightarrow> hook_state \<Rightarrow> verdict \<times> hook_state" where
  "prefixed_alt_tab l hotkey_id s =
     (let vk = l_vk l; sc = l_sc l; key_up = l_key_up l;
          s1 = (if \<not> key_up
                then upd_key (l_pThisKey l) (\<lambda>k. k\<lparr>down_performed_action := True\<rparr>) s else s);
          s2 = (if g_modifiersLR_logical s1 AND MOD_LALT = 0
                   \<and> g_modifiersLR_logical s1 AND MOD_RALT = 0
                then KeyEvent KEYDOWN VK_MENU 0 s1 else s1);
          s3 = (if vk = VK_LCONTROL \<or> vk = VK_RCONTROL \<or> vk = VK_CONTROL
                then KeyEvent KEYUP vk sc s2 else s2);
          s4 = upd_prefix (\<lambda>k. k\<lparr>it_put_alt_down := True\<rparr>) s3;
          s5 = (if hotkey_id = HOTKEY_ID_ALT_TAB_SHIFT then
                  (let sa = (if g_modifiersLR_logical s4 AND MOD_LSHIFT = 0
                                \<and> g_modifiersLR_logical s4 AND MOD_RSHIFT = 0
                             then KeyEvent KEYDOWN VK_SHIFT 0 s4 else s4)
                   in upd_prefix (\<lambda>k. k\<lparr>it_put_shift_down := True\<rparr>) sa)
                else if hotkey_id = HOTKEY_ID_ALT_TAB then
                  (let sa = (if vk = VK_LSHIFT \<or> vk = VK_RSHIFT \<or> vk = VK_SHIFT
                             then KeyEvent KEYUP vk sc s4 else s4)
                   in if g_modifiersLR_logical sa AND MOD_LSHIFT \<noteq> 0
                         \<or> g_modifiersLR_logical sa AND MOD_RSHIFT \<noteq> 0
                      then KeyEvent KEYUP
                             (if g_modifiersLR_logical sa AND MOD_RSHIFT \<noteq> 0
                              then VK_RSHIFT else VK_LSHIFT) 0 sa
                      else sa)
                else s4);
          s6 = (if g_modifiersLR_logical s5 AND MOD_LCONTROL \<noteq> 0
                   \<or> g_modifiersLR_logical s5 AND MOD_RCONTROL \<noteq> 0
                then KeyEvent KEYUP
                       (if g_modifiersLR_logical s5 AND MOD_RCONTROL \<noteq> 0
                        then VK_RCONTROL else VK_LCONTROL) 0 s5
                else s5);
          s7 = KeyEvent KEYDOWNANDUP VK_TAB 0 s6;
          s8 = (if hotkey_id = HOTKEY_ID_ALT_TAB_SHIFT
                   \<and> (case pPrefixKey s7 of None \<Rightarrow> False
                       | Some q \<Rightarrow> it_put_shift_down (deref s7 q))
                   \<and> ((VK_NUMPAD0 \<le> vk \<and> vk \<le> VK_NUMPAD9) \<or> vk = VK_DECIMAL)
                then upd_prefix (\<lambda>k. k\<lparr>it_put_shift_down := False\<rparr>)
                       (KeyEvent KEYUP VK_SHIFT 0 s7)
                else s7);
          s9 = set_event_type (l_pKeyHistoryCurr l) CHR ''h'' s8
      in SuppressThisKey l s9)"

text \<open>The lookup by the logical modifiers that are down (lines 1438-1449).\<close>

definition modifier_lookup :: "locals \<Rightarrow> hook_state \<Rightarrow> HotkeyIDType \<times> bool" where
  "modifier_lookup l s =
     (let k = deref s (l_pThisKey l);
          new0 = g_modifiersLR_logical s;
          new1 = (if as_modifiersLR k \<noteq> 0 then new0 AND NOT (as_modifiersLR k) else new0);
          hk1 = GET_HOTKEY_ID_AND_FLAGS
                  (if sc_takes_precedence (ksc s (l_sc l)) then Kscm (l_cfg l) new1 (l_sc l)
                   else Kvkm (l_cfg l) new1 (l_vk l))
      in if fst hk1 = HOTKEY_ID_INVALID \<and> alt_tab_menu_is_visible s then
           (let new2 = new1 AND NOT (MOD_LALT OR MOD_RALT)
            in GET_HOTKEY_ID_AND_FLAGS
                 (if sc_takes_precedence (ksc s (l_sc l)) then Kscm (l_cfg l) new2 (l_sc l)
                  else Kvkm (l_cfg l) new2 (l_vk l)))
         else hk1)"

text \<open>Arming the disguise of the next Windows or Alt key-up (lines 1517-1539).\<close>

definition arm_disguise :: "hook_state \<Rightarrow> hook_state" where
  "arm_disguise s =
     (if g_modifiersLR_logical s AND NOT (MOD_LWIN OR MOD_RWIN) = 0 then
        (let s1 = (if g_modifiersLR_logical s AND MOD_LWIN \<noteq> 0 \<and> \<not> used_as_prefix (kvk s VK_LWIN)
                   then s\<lparr>disguise_next_lwin_up := True\<rparr> else s)
         in if g_modifiersLR_logical s1 AND MOD_RWIN \<noteq> 0 \<and> \<not> used_as_prefix (kvk s1 VK_RWIN)
            then s1\<lparr>disguise_next_rwin_up := True\<rparr> else s1)
      else if g_modifiersLR_logical s AND NOT (MOD_LALT OR MOD_RALT) = 0 then
        (let s1 = (if g_modifiersLR_logical s AND MOD_LALT \<noteq> 0 \<and> \<not> used_as_prefix (kvk s VK_LMENU)
                   then s\<lparr>disguise_next_lalt_up := True\<rparr> else s)
         in if g_modifiersLR_logical s1 AND MOD_RALT \<noteq> 0 \<and> \<not> used_as_prefix (kvk s1 VK_RMENU)
            then s1\<lparr>disguise_next_ralt_up := True\<rparr> else s1)
      else s)"

subsection \<open>Case 4: the switch over the hotkey id\<close>

text \<open>A block of the switch either returns from the hook (\<open>Inl\<close>) or reaches the
  \<^verbatim>\<open>break\<close> (\<open>Inr\<close>).\<close>

definition alt_tab_navigate ::
  "locals \<Rightarrow> HotkeyIDType \<Rightarrow> hook_state \<Rightarrow> (verdict \<times> hook_state) + hook_state" where
  "alt_tab_navigate l hotkey_id s =
     (if \<not> alt_tab_menu_is_visible s then Inl (AllowKeyToGoToSystem l s)
      else
        (let vk = l_vk l; key_up = l_key_up l;
             s1 = (if \<not> key_up \<and> (vk = VK_LCONTROL \<or> vk = VK_RCONTROL \<or> vk = VK_CONTROL
                                   \<or> vk = VK_LSHIFT \<or> vk = VK_RSHIFT \<or> vk = VK_SHIFT)
                   then KeyEvent KEYUP vk 0 s else s);
             s2 = (if \<not> (g_modifiersLR_logical s1 AND MOD_LALT \<noteq> 0
                         \<or> g_modifiersLR_logical s1 AND MOD_RALT \<noteq> 0)
                      \<or> (key_up \<and> (vk = VK_LMENU \<or> vk = VK_RMENU \<or> vk = VK_MENU))
                   then KeyEvent KEYDOWN VK_MENU 0 s1 else s1);
             shift_put_down = (hotkey_id = HOTKEY_ID_ALT_TAB_SHIFT
                               \<and> \<not> (g_modifiersLR_logical s2 AND MOD_LSHIFT \<noteq> 0
                                     \<or> g_modifiersLR_logical s2 AND MOD_RSHIFT \<noteq> 0));
             s3 = (if shift_put_down then KeyEvent KEYDOWN VK_SHIFT 0 s2 else s2);
             s4 = KeyEvent KEYDOWNANDUP VK_TAB 0 s3;
             s5 = (if shift_put_down then KeyEvent KEYUP VK_SHIFT 0 s4 else s4)
         in Inr s5))"

definition alt_tab_menu ::
  "locals \<Rightarrow> HotkeyIDType \<Rightarrow> hook_state \<Rightarrow> (verdict \<times> hook_state) + hook_state" where
  "alt_tab_menu l hotkey_id s =
     (let vk = l_vk l; key_up = l_key_up l;
          which_alt_down0 = (if g_modifiersLR_logical s AND MOD_LALT \<noteq> 0 then VK_LMENU
                             else if g_modifiersLR_logical s AND MOD_RALT \<noteq> 0 then VK_RMENU
                             else 0)
      in if alt_tab_menu_is_visible s then
           (if hotkey_id \<noteq> HOTKEY_ID_ALT_TAB_AND_MENU then
              (let s1 = KeyEvent KEYUP
                          (if which_alt_down0 \<noteq> 0 then which_alt_down0 else VK_MENU) 0 s;
                   s2 = (if as_modifiersLR (deref s1 (l_pThisKey l)) \<noteq> 0
                            \<and> vk \<noteq> VK_LWIN \<and> vk \<noteq> VK_RWIN
                         then KeyEvent KEYUP vk 0 s1 else s1)
               in Inr (s2\<lparr>alt_tab_menu_is_visible := False\<rparr>))
            else alt_tab_navigate l hotkey_id s)
         else
           (let vk_is_alt = (vk = VK_LMENU \<or> vk = VK_RMENU \<or> vk = VK_MENU);
                vk_is_shift = (vk = VK_LSHIFT \<or> vk = VK_RSHIFT \<or> vk = VK_SHIFT);
                vk_is_control = (vk = VK_LCONTROL \<or> vk = VK_RCONTROL \<or> vk = VK_CONTROL);
                which_shift_down =
                  (if g_modifiersLR_logical s AND MOD_LSHIFT \<noteq> 0 then VK_LSHIFT
                   else if g_modifiersLR_logical s AND MOD_RSHIFT \<noteq> 0 then VK_RSHIFT
                   else if \<not> key_up \<and> vk_is_shift then vk else 0);
                which_control_down =
                  (if g_modifiersLR_logical s AND MOD_LCONTROL \<noteq> 0 then VK_LCONTROL
                   else if g_modifiersLR_logical s AND MOD_RCONTROL \<noteq> 0 then VK_RCONTROL
                   else if \<not> key_up \<and> vk_is_control then vk else 0);
                shift_put_up = (which_shift_down \<noteq> 0);
                s1 = (if which_shift_down \<noteq> 0 then KeyEvent KEYUP which_shift_down 0 s else s);
                s2 = (if which_control_down \<noteq> 0 then KeyEvent KEYUP which_control_down 0 s1
                      else s1);
                which_alt_down = (if vk_is_alt then (if key_up then 0 else vk)
                                  else which_alt_down0);
                s3 = (if which_alt_down = 0 then KeyEvent KEYDOWN VK_MENU 0 s2 else s2);
                s4 = KeyEvent KEYDOWN VK_TAB 0 s3;
                s5 = (if shift_put_up \<and> \<not> vk_is_shift
                      then KeyEvent KEYDOWN which_shift_down 0 s4 else s4)
            in Inr (s5\<lparr>alt_tab_menu_is_visible := True\<rparr>)))"

definition perform_hotkey ::
  "locals \<Rightarrow> HotkeyIDType \<Rightarrow> hook_state \<Rightarrow> (verdict \<times> hook_state) + hook_state" where
  "perform_hotkey l hotkey_id s =
     (if hotkey_id = HOTKEY_ID_ALT_TAB_MENU_DISMISS then
        (if \<not> alt_tab_menu_is_visible s then Inl (AllowKeyToGoToSystem l s)
         else alt_tab_menu l hotkey_id s)
      else if hotkey_id = HOTKEY_ID_ALT_TAB_MENU \<or> hotkey_id = HOTKEY_ID_ALT_TAB_AND_MENU
        then alt_tab_menu l hotkey_id s
      else if hotkey_id = HOTKEY_ID_ALT_TAB \<or> hotkey_id = HOTKEY_ID_ALT_TAB_SHIFT
        then alt_tab_navigate l hotkey_id s
      else Inr (s\<lparr>posted := posted s @ [(hotkey_id, 0)]\<rparr>))"

text \<open>What follows the switch (lines 1754-1834).\<close>

definition hotkey_fired :: "locals \<Rightarrow> bool \<Rightarrow> hook_state \<Rightarrow> verdict \<times> hook_state" where
  "hotkey_fired l no_suppress s =
     (let vk = l_vk l; sc = l_sc l; key_up = l_key_up l; p = l_pThisKey l;
          s1 = set_event_type (l_pKeyHistoryCurr l) CHR ''h'' s
      in if toggle_neutral s1 (deref s1 p) \<and> used_as_prefix (deref s1 p) \<and> key_up then
           SuppressThisKey l
             (KeyEvent KEYUP vk sc (KeyEvent KEYDOWN vk sc (KeyEvent KEYUP vk sc s1)))
         else if as_modifiersLR (deref s1 p) \<noteq> 0 \<and> key_up then
           AllowKeyToGoToSystemButDisguiseWinAlt l s1
         else if key_up then
           (if no_suppress then AllowKeyToGoToSystem l (KeyEvent KEYDOWN vk sc s1)
            else SuppressThisKey l s1)
         else
           (let s2 = upd_key p (\<lambda>k. k\<lparr>down_performed_action := True\<rparr>) s1;
                s3 = (if pPrefixKey s2 \<noteq> None
                      then upd_prefix (\<lambda>k. k\<lparr>was_just_used := AS_PREFIX_FOR_HOTKEY\<rparr>) s2
                      else s2);
                s4 = (if no_suppress then KeyEvent KEYDOWNANDUP vk sc s3 else s3)
            in SuppressThisKey l s4))"

definition Case4 :: "locals \<Rightarrow> hook_state \<Rightarrow> verdict \<times> hook_state" where
  "Case4 l s =
     (let with_prefix = (pPrefixKey s \<noteq> None \<and> \<not> l_key_up l);
          r0 = (if with_prefix then prefix_lookup l s else ((HOTKEY_ID_INVALID, False), s));
          hk0 = fst r0;
          s0 = snd r0
      in if with_prefix
            \<and> (fst hk0 = HOTKEY_ID_ALT_TAB \<or> fst hk0 = HOTKEY_ID_ALT_TAB_SHIFT)
         then prefixed_alt_tab l (fst hk0) s0
         else
           (let hk1 = (if fst hk0 = HOTKEY_ID_INVALID then modifier_lookup l s0 else hk0)
            in if fst hk1 = HOTKEY_ID_INVALID then
                 (if l_key_up l then allow_modifier_or_neutral_toggle l s0
                  else AllowKeyToGoToSystem l s0)
               else
                 (case perform_hotkey l (fst hk1) (arm_disguise s0) of
                    Inl r \<Rightarrow> r
                  | Inr s1 \<Rightarrow> hotkey_fired l (snd hk1) s1)))"

subsection \<open>Cases 1 to 3 and the dispatcher\<close>

definition Case1 :: "locals \<Rightarrow> hook_state \<Rightarrow> verdict \<times> hook_state" where
  "Case1 l s =
     (let s1 = s\<lparr>pPrefixKey := Some (l_pThisKey l)\<rparr>;
          s2 = upd_prefix (\<lambda>k. k\<lparr>was_just_used := UNUSED\<rparr>) s1
      in allow_modifier_or_neutral_toggle l s2)"

definition Case2 :: "locals \<Rightarrow> bool \<Rightarrow> hook_state \<Rightarrow> verdict \<times> hook_state" where
  "Case2 l down_performed_action_saved s =
     (if down_performed_action_saved then SuppressThisKey l s else AllowKeyToGoToSystem l s)"

definition Case3 ::
  "locals \<Rightarrow> bool \<Rightarrow> hook_state \<Rightarrow> (verdict \<times> hook_state) + hook_state" where
  "Case3 l was_down_before_up s =
     (let p = l_pThisKey l; vk = l_vk l; sc = l_sc l;
          s1 = (if pPrefixKey s = Some p then s\<lparr>pPrefixKey := None\<rparr> else s);
          s2 = (if it_put_alt_down (deref s1 p)
                then KeyEvent KEYUP VK_MENU 0 (upd_key p (\<lambda>k. k\<lparr>it_put_alt_down := False\<rparr>) s1)
                else s1);
          s3 = (if it_put_shift_down (deref s2 p)
                then KeyEvent KEYUP VK_SHIFT 0
                       (upd_key p (\<lambda>k. k\<lparr>it_put_shift_down := False\<rparr>) s2)
                else s2);
          k = deref s3 p;
          not_used_as_prefix =
            (if \<not> used_as_suffix k then Inl (allow_modifier_or_neutral_toggle l s3)
             else if \<not> was_down_before_up then Inl (AllowKeyToGoToSystem l s3)
             else Inr s3)
      in if toggle_neutral s3 k then
           (if was_just_used k = AS_PREFIX_FOR_HOTKEY then
              Inl (SuppressThisKey l
                     (KeyEvent KEYUP vk sc (KeyEvent KEYDOWN vk sc (KeyEvent KEYUP vk sc s3))))
            else if was_just_used k = AS_PREFIX then Inl (AllowKeyToGoToSystem l s3)
            else not_used_as_prefix)
         else if was_just_used k \<noteq> UNUSED then
           (if as_modifiersLR k \<noteq> 0 then
              Inl (if was_just_used k = AS_PREFIX_FOR_HOTKEY
                   then AllowKeyToGoToSystemButDisguiseWinAlt l s3
                   else AllowKeyToGoToSystem l s3)
            else Inl (SuppressThisKey l s3))
         else not_used_as_prefix)"

text \<open>The dispatcher proper, from the auto-repeat check of line 1052 on. The two locals
  \<^verbatim>\<open>was_down_before_up\<close> and \<^verbatim>\<open>down_performed_action\<close> are only assigned and
  only read on a key-up.\<close>

definition dispatch :: "locals \<Rightarrow> hook_state \<Rightarrow> verdict \<times> hook_state" where
  "dispatch l s =
     (let p = l_pThisKey l; key_up = l_key_up l in
      if pPrefixKey s = Some p \<and> \<not> key_up then
        (if as_modifiersLR (deref s p) \<noteq> 0 then AllowKeyToGoToSystem l s
         else SuppressThisKey l s)
      else
        (let s1 = (if pPrefixKey s \<noteq> None \<and> \<not> key_up \<and> as_modifiersLR (deref s p) = 0
                   then upd_prefix (\<lambda>k. k\<lparr>was_just_used := AS_PREFIX\<rparr>) s else s)
         in if \<not> used_as_prefix (deref s1 p) \<and> \<not> used_as_suffix (deref s1 p)
            then AllowKeyToGoToSystem l s1
            else
              (let was_down_before_up = is_down (deref s1 p);
                   down_performed_action_saved = down_performed_action (deref s1 p);
                   s2 = (if key_up
                         then upd_key p (\<lambda>k. k\<lparr>down_performed_action := False\<rparr>) s1 else s1);
                   s3 = upd_key p (\<lambda>k. k\<lparr>is_down := \<not> key_up\<rparr>) s2;
                   k = deref s3 p
               in if used_as_prefix k \<and> \<not> key_up
                     \<and> (pPrefixKey s3 = None \<or> \<not> used_as_suffix k)
                  then Case1 l s3
                  else if used_as_suffix k \<and> pPrefixKey s3 \<noteq> Some p \<and> key_up
                  then Case2 l down_performed_action_saved s3
                  else if used_as_prefix k \<and> key_up then
                    (case Case3 l was_down_before_up s3 of
                       Inl r \<Rightarrow> r
                     | Inr s4 \<Rightarrow> Case4 l s4)
                  else Case4 l s3)))"

subsection \<open>LowLevelKeybdProc\<close>

text \<open>\<^verbatim>\<open>pThisKey\<close> is computed together with the other locals; the early returns
  before line 1045 do not read it.\<close>

definition LowLevelKeybdProc ::
  "hook_cfg \<Rightarrow> DWORD \<Rightarrow> bool \<Rightarrow> int \<Rightarrow> DWORD \<Rightarrow> KBDLLHOOKSTRUCT \<Rightarrow> hook_state
    \<Rightarrow> verdict \<times> hook_state" where
  "LowLevelKeybdProc cfg now numlock_on code wParam pEvent s =
     (if code \<noteq> HC_ACTION then (PassedOn, s)
      else
        (let key_up = (wParam = WM_KEYUP \<or> wParam = WM_SYSKEYUP);
             vk = vkCode pEvent;
             sc = normalize_sc cfg pEvent;
             pKeyHistoryCurr = g_KeyHistoryNext s;
             s1 = new_history_item cfg pEvent sc key_up s;
             s2 = track_pad_state numlock_on vk sc key_up s1;
             s3 = alt_tab_menu_heuristic vk key_up s2;
             s4 = track_physical_key now pEvent sc key_up s3;
             l = \<lparr>l_cfg = cfg, l_now = now, l_pEvent = pEvent, l_vk = vk, l_sc = sc,
                  l_key_up = key_up, l_pKeyHistoryCurr = pKeyHistoryCurr,
                  l_pThisKey = (if sc_takes_precedence (ksc s4 sc) then KSC sc else KVK vk)\<rparr>
         in if dwExtraInfo pEvent = KEYIGNORE then AllowKeyToGoToSystem l s4
            else if disguise_is_armed vk key_up s4 then disguised_key_up l s4
            else dispatch l s4))"

section \<open>Notions used by the statements and proofs\<close>

subsection \<open>The state without the modifier and prior-event tracking\<close>

text \<open>\<open>tview\<close> forgets the fields that \<^verbatim>\<open>EventIsPhysical\<close>,
  \<^verbatim>\<open>UpdateModifierState\<close> and \<^verbatim>\<open>UpdateKeyState\<close> write. Two states with the
  same \<open>tview\<close> agree on every other field.\<close>

definition tview :: "hook_state \<Rightarrow> hook_state" where
  "tview s = s\<lparr>next_phys_shift_down_is_not_phys := False, prior_vk := 0, prior_sc := 0,
     prior_event_was_key_up := False, prior_event_was_physical := False,
     prior_event_tickcount := 0, prior_modifiersLR_physical := 0, prior_shift_state := False,
     prior_lshift_state := False, g_modifiersLR_logical := 0, g_modifiersLR_physical := 0,
     g_PhysicalKeyState := (\<lambda>_. False), g_TimeLastInputPhysical := 0\<rparr>"

subsection \<open>The consistency of the neutral entries of the physical key table\<close>

definition neutral_consistent :: "hook_state \<Rightarrow> bool" where
  "neutral_consistent s =
     ((g_PhysicalKeyState s VK_SHIFT
         = (g_PhysicalKeyState s VK_LSHIFT \<or> g_PhysicalKeyState s VK_RSHIFT))
      \<and> (g_PhysicalKeyState s VK_CONTROL
         = (g_PhysicalKeyState s VK_LCONTROL \<or> g_PhysicalKeyState s VK_RCONTROL))
      \<and> (g_PhysicalKeyState s VK_MENU
         = (g_PhysicalKeyState s VK_LMENU \<or> g_PhysicalKeyState s VK_RMENU)))"

subsection \<open>Emitted events by name\<close>

definition numlock_event :: "KeyEventTypes \<Rightarrow> key_event" where
  "numlock_event t = \<lparr>ke_type = t, ke_vk = VK_NUMLOCK, ke_sc = 0, ke_extra = KEYIGNORE\<rparr>"

subsection \<open>Example configurations and states\<close>

text \<open>The key tables as they are before any hotkey is registered: every record is blank,
  except that the eleven modifier keys carry their masks. The examples below start from
  here.\<close>

definition blank_key :: key_type where
  "blank_key = \<lparr>used_as_prefix = False, used_as_suffix = False, as_modifiersLR = 0,
     pForceToggle = None, ModifierVK = [], ModifierSC = [], sc_takes_precedence = False,
     is_down = False, down_performed_action = False, was_just_used = UNUSED,
     it_put_alt_down = False, it_put_shift_down = False\<rparr>"

definition modifier_mask_of_vk :: "vk_type \<Rightarrow> modLR_type" where
  "modifier_mask_of_vk vk =
     (if vk = VK_LSHIFT then MOD_LSHIFT else if vk = VK_RSHIFT then MOD_RSHIFT
      else if vk = VK_LCONTROL then MOD_LCONTROL else if vk = VK_RCONTROL then MOD_RCONTROL
      else if vk = VK_LMENU then MOD_LALT else if vk = VK_RMENU then MOD_RALT
      else if vk = VK_LWIN then MOD_LWIN else if vk = VK_RWIN then MOD_RWIN
      else if vk = VK_SHIFT then MOD_LSHIFT OR MOD_RSHIFT
      else if vk = VK_CONTROL then MOD_LCONTROL OR MOD_RCONTROL
      else if vk = VK_MENU then MOD_LALT OR MOD_RALT
      else 0)"

definition plain_kvk :: "vk_type \<Rightarrow> key_type" where
  "plain_kvk vk = blank_key\<lparr>as_modifiersLR := modifier_mask_of_vk vk\<rparr>"

definition idle_state :: hook_state where
  "idle_state = \<lparr>pad_state = (\<lambda>_. False), next_phys_shift_down_is_not_phys = False,
     prior_vk = 0, prior_sc = 0, prior_event_was_key_up = False,
     prior_event_was_physical = False, prior_event_tickcount = 0,
     prior_modifiersLR_physical = 0, prior_shift_state = False, prior_lshift_state = False,
     g_modifiersLR_logical = 0, g_modifiersLR_physical = 0,
     g_PhysicalKeyState = (\<lambda>_. False), g_TimeLastInputPhysical = 0,
     kvk = plain_kvk, ksc = (\<lambda>_. blank_key), toggle_store = (\<lambda>_. NEUTRAL),
     pPrefixKey = None, disguise_next_lwin_up = False, disguise_next_rwin_up = False,
     disguise_next_lalt_up = False, disguise_next_ralt_up = False,
     alt_tab_menu_is_visible = False,
     g_KeyHistory = (\<lambda>_. \<lparr>h_vk = 0, h_sc = 0, h_key_up = False, event_type = CHR '' ''\<rparr>),
     g_KeyHistoryNext = 0, emitted = [], posted = []\<rparr>"

text \<open>Windows XP, no hotkey in the modifier tables.\<close>

definition plain_cfg :: hook_cfg where
  "plain_cfg = \<lparr>g_vk_to_sc = (\<lambda>_. 0), Kvkm = (\<lambda>_ _. HOTKEY_ID_INVALID),
     Kscm = (\<lambda>_ _. HOTKEY_ID_INVALID), IsWinXPorLater = True, IsWin2000 = False,
     IsWinNT4 = False, MAX_HISTORY_KEYS = 40\<rparr>"

text \<open>An event of the keyboard driver: not injected, not extended, no extra info.\<close>

definition physical_key :: "vk_type \<Rightarrow> DWORD \<Rightarrow> KBDLLHOOKSTRUCT" where
  "physical_key vk sc = \<lparr>vkCode = vk, scanCode = sc, flags = 0, time = 0, dwExtraInfo = 0\<rparr>"

definition WM_KEYDOWN :: DWORD where [vk_defs]: "WM_KEYDOWN = 0x0100"

definition phantom_armed :: hook_state where
  "phantom_armed = idle_state\<lparr>next_phys_shift_down_is_not_phys := True\<rparr>"

text \<open>The Numlock key forced on: its record points at a toggle variable that is not
  neutral.\<close>

definition forced_numlock :: hook_state where
  "forced_numlock = idle_state\<lparr>
     kvk := plain_kvk(VK_NUMLOCK := blank_key\<lparr>pForceToggle := Some 0\<rparr>),
     toggle_store := (\<lambda>_. NEUTRAL)(0 := ALWAYS_ON)\<rparr>"

text \<open>Modifier keys held, physically and logically.\<close>

definition both_win_held :: hook_state where
  "both_win_held = idle_state\<lparr>g_modifiersLR_logical := MOD_LWIN OR MOD_RWIN,
     g_modifiersLR_physical := MOD_LWIN OR MOD_RWIN,
     g_PhysicalKeyState := (\<lambda>_. False)(VK_LWIN := True, VK_RWIN := True)\<rparr>"

definition lwin_held :: hook_state where
  "lwin_held = idle_state\<lparr>g_modifiersLR_logical := MOD_LWIN,
     g_modifiersLR_physical := MOD_LWIN,
     g_PhysicalKeyState := (\<lambda>_. False)(VK_LWIN := True)\<rparr>"

definition ctrl_alt_held :: hook_state where
  "ctrl_alt_held = idle_state\<lparr>g_modifiersLR_logical := MOD_LCONTROL OR MOD_LALT,
     g_modifiersLR_physical := MOD_LCONTROL OR MOD_LALT,
     g_PhysicalKeyState := (\<lambda>_. False)(VK_LCONTROL := True, VK_CONTROL := True,
                                          VK_LMENU := True, VK_MENU := True)\<rparr>"

definition both_alt_held :: hook_state where
  "both_alt_held = idle_state\<lparr>g_modifiersLR_logical := MOD_LALT OR MOD_RALT,
     g_modifiersLR_physical := MOD_LALT OR MOD_RALT,
     g_PhysicalKeyState := (\<lambda>_. False)(VK_LMENU := True, VK_RMENU := True, VK_MENU := True)\<rparr>"

definition lalt_held :: hook_state where
  "lalt_held = idle_state\<lparr>g_modifiersLR_logical := MOD_LALT,
     g_modifiersLR_physical := MOD_LALT,
     g_PhysicalKeyState := (\<lambda>_. False)(VK_LMENU := True, VK_MENU := True)\<rparr>"

definition win2000_cfg :: hook_cfg where
  "win2000_cfg = plain_cfg\<lparr>IsWinXPorLater := False, IsWin2000 := True\<rparr>"

text \<open>An event injected by another program: the injected flag, no extra info.\<close>

definition injected_key :: "vk_type \<Rightarrow> DWORD \<Rightarrow> KBDLLHOOKSTRUCT" where
  "injected_key vk sc =
     \<lparr>vkCode = vk, scanCode = sc, flags = LLKHF_INJECTED, time = 0, dwExtraInfo = 0\<rparr>"

subsection \<open>The key tables, the prefix slot, the disguise flags and the posted messages\<close>

text \<open>\<open>kview\<close> collects the fields that only the dispatcher writes; the tracking
  functions, \<^verbatim>\<open>KeyEvent\<close>, \<^verbatim>\<open>SuppressThisKeyFunc\<close> and \<^verbatim>\<open>AllowIt\<close>
  leave them alone.\<close>

definition kview ::
  "hook_state \<Rightarrow> ((vk_type \<Rightarrow> key_type) \<times> (sc_type \<Rightarrow> key_type) \<times> (nat \<Rightarrow> ToggleValueType)
     \<times> key_ptr option) \<times> (bool \<times> bool \<times> bool \<times> bool) \<times> (HotkeyIDType \<times> nat) list" where
  "kview s = ((kvk s, ksc s, toggle_store s, pPrefixKey s),
              (disguise_next_lwin_up s, disguise_next_rwin_up s, disguise_next_lalt_up s,
               disguise_next_ralt_up s), posted s)"

text \<open>A state with the four fields blanked that a suppressed modifier update can write:
  the physical mask, the physical key table and the two fields of the classifier. Two
  states with the same view agree on every other field.\<close>

definition suppressed_view :: "hook_state \<Rightarrow> hook_state" where
  "suppressed_view s = s\<lparr>g_modifiersLR_physical := 0, g_PhysicalKeyState := (\<lambda>_. False),
     next_phys_shift_down_is_not_phys := False, g_TimeLastInputPhysical := 0\<rparr>"

text \<open>The three events that replace a disguised key-up.\<close>

definition disguise_events :: "vk_type \<Rightarrow> sc_type \<Rightarrow> key_event list" where
  "disguise_events vk sc =
     [\<lparr>ke_type = KEYDOWN, ke_vk = VK_SHIFT, ke_sc = 0, ke_extra = KEYIGNORE\<rparr>,
      \<lparr>ke_type = KEYUP, ke_vk = vk, ke_sc = sc, ke_extra = KEYIGNORE\<rparr>,
      \<lparr>ke_type = KEYUP, ke_vk = VK_SHIFT, ke_sc = 0, ke_extra = KEYIGNORE\<rparr>]"

text \<open>The left Windows key held with its disguise armed, and an event that carries the
  ignore tag.\<close>

definition lwin_disguise_armed :: hook_state where
  "lwin_disguise_armed = lwin_held\<lparr>disguise_next_lwin_up := True\<rparr>"

definition ignored_key :: "vk_type \<Rightarrow> DWORD \<Rightarrow> KBDLLHOOKSTRUCT" where
  "ignored_key vk sc =
     \<lparr>vkCode = vk, scanCode = sc, flags = LLKHF_INJECTED, time = 0, dwExtraInfo = KEYIGNORE\<rparr>"


subsection \<open>The first lines of LowLevelKeybdProc by name\<close>

text \<open>\<open>this_key\<close> is \<^verbatim>\<open>pThisKey\<close> as line 1045 computes it, \<open>is_key_up\<close> the local
  \<^verbatim>\<open>key_up\<close>, \<open>hook_head\<close> the state when the hook reaches the test for
  \<^verbatim>\<open>KEYIGNORE\<close> and \<open>hook_locals\<close> the locals at that point.\<close>

definition this_key :: "hook_cfg \<Rightarrow> KBDLLHOOKSTRUCT \<Rightarrow> hook_state \<Rightarrow> key_ptr" where
  "this_key cfg pEvent s =
     (if sc_takes_precedence (ksc s (normalize_sc cfg pEvent))
      then KSC (normalize_sc cfg pEvent) else KVK (vkCode pEvent))"

definition is_key_up :: "DWORD \<Rightarrow> bool" where
  "is_key_up wParam = (wParam = WM_KEYUP \<or> wParam = WM_SYSKEYUP)"

definition hook_head ::
  "hook_cfg \<Rightarrow> DWORD \<Rightarrow> bool \<Rightarrow> DWORD \<Rightarrow> KBDLLHOOKSTRUCT \<Rightarrow> hook_state \<Rightarrow> hook_state" where
  "hook_head cfg now numlock_on wParam pEvent s =
     track_physical_key now pEvent (normalize_sc cfg pEvent) (is_key_up wParam)
       (alt_tab_menu_heuristic (vkCode pEvent) (is_key_up wParam)
         (track_pad_state numlock_on (vkCode pEvent) (normalize_sc cfg pEvent) (is_key_up wParam)
           (new_history_item cfg pEvent (normalize_sc cfg pEvent) (is_key_up wParam) s)))"

definition hook_locals :: "hook_cfg \<Rightarrow> DWORD \<Rightarrow> DWORD \<Rightarrow> KBDLLHOOKSTRUCT \<Rightarrow> hook_state \<Rightarrow> locals" where
  "hook_locals cfg now wParam pEvent s =
     \<lparr>l_cfg = cfg, l_now = now, l_pEvent = pEvent, l_vk = vkCode pEvent,
      l_sc = normalize_sc cfg pEvent, l_key_up = is_key_up wParam,
      l_pKeyHistoryCurr = g_KeyHistoryNext s, l_pThisKey = this_key cfg pEvent s\<rparr>"


subsection \<open>Example configurations with a prefix key\<close>

text \<open>CapsLock as a prefix key that is not a suffix, its toggle variable neutral: idle, and
  held as the active prefix after another key was pressed. Last, a left-shift record that
  is a prefix, a modifier and points at a toggle variable forced on.\<close>

definition VK_CAPITAL :: vk_type where [vk_defs]: "VK_CAPITAL = 0x14"

definition caps_prefix_idle :: hook_state where
  "caps_prefix_idle = idle_state\<lparr>
     kvk := plain_kvk(VK_CAPITAL := blank_key\<lparr>used_as_prefix := True, pForceToggle := Some 0\<rparr>)\<rparr>"

definition caps_prefix_held :: hook_state where
  "caps_prefix_held = idle_state\<lparr>
     kvk := plain_kvk(VK_CAPITAL := blank_key\<lparr>used_as_prefix := True, pForceToggle := Some 0,
                                             is_down := True, was_just_used := AS_PREFIX\<rparr>),
     pPrefixKey := Some (KVK VK_CAPITAL)\<rparr>"

definition shift_prefix_forced :: hook_state where
  "shift_prefix_forced = idle_state\<lparr>
     kvk := plain_kvk(VK_LSHIFT := blank_key\<lparr>used_as_prefix := True,
                                            as_modifiersLR := MOD_LSHIFT, pForceToggle := Some 0\<rparr>),
     toggle_store := (\<lambda>_. NEUTRAL)(0 := ALWAYS_ON)\<rparr>"


subsection \<open>The state a block of the dispatcher ends in\<close>

text \<open>A block that may return early yields \<open>Inl\<close> of the hook's result or \<open>Inr\<close> of the
  state to go on with; \<open>ret_state\<close> is the state in either case.\<close>

definition ret_state :: "(verdict \<times> hook_state) + hook_state \<Rightarrow> hook_state" where
  "ret_state r = (case r of Inl x \<Rightarrow> snd x | Inr s \<Rightarrow> s)"


subsection \<open>An example with chained prefix keys\<close>

text \<open>Four function keys and the two hotkeys \<^verbatim>\<open>F1 & F2\<close> (id 1) and
  \<^verbatim>\<open>F2 & F3\<close> (id 2): F1 is a prefix, F2 a prefix and a suffix, F3 a suffix; F4 is a
  prefix of its own. \<open>key_down\<close> is the state after the hook has processed a
  physical key-down.\<close>

definition VK_F1 :: vk_type where [vk_defs]: "VK_F1 = 0x70"
definition VK_F2 :: vk_type where [vk_defs]: "VK_F2 = 0x71"
definition VK_F3 :: vk_type where [vk_defs]: "VK_F3 = 0x72"
definition VK_F4 :: vk_type where [vk_defs]: "VK_F4 = 0x73"

definition chained_prefixes :: hook_state where
  "chained_prefixes = idle_state\<lparr>
     kvk := plain_kvk
       (VK_F1 := blank_key\<lparr>used_as_prefix := True\<rparr>,
        VK_F2 := blank_key\<lparr>used_as_prefix := True, used_as_suffix := True,
                            ModifierVK := [(VK_F1, 1)]\<rparr>,
        VK_F3 := blank_key\<lparr>used_as_suffix := True, ModifierVK := [(VK_F2, 2)]\<rparr>,
        VK_F4 := blank_key\<lparr>used_as_prefix := True\<rparr>)\<rparr>"

definition key_down :: "vk_type \<Rightarrow> DWORD \<Rightarrow> hook_state \<Rightarrow> hook_state" where
  "key_down vk sc s =
     snd (LowLevelKeybdProc plain_cfg 1000 False HC_ACTION WM_KEYDOWN (physical_key vk sc) s)"


definition f1_held :: hook_state where
  "f1_held = key_down VK_F1 0x3B chained_prefixes"

definition f1_f2_held :: hook_state where
  "f1_f2_held = key_down VK_F2 0x3C f1_held"


section \<open>Properties\<close>

subsection \<open>Unfolding sets\<close>

lemmas head_defs = normalize_sc_def new_history_item_def track_pad_state_def pad_of_vk_def
  alt_tab_menu_heuristic_def track_physical_key_def disguise_is_armed_def
lemmas tracker_defs = EventIsPhysical_def UpdateKeyState_def UpdateModifierState_def
  modifier_case_def IsDualStateNumpadKey_def DualStateNumpadKeyIsDown_def pad_all_def
lemmas verdict_defs = AllowKeyToGoToSystem_def AllowKeyToGoToSystemButDisguiseWinAlt_def
  SuppressThisKey_def SuppressThisKeyFunc_def AllowIt_def toggle_is_forced_def win_l_reset_def
  ctrl_alt_del_reset_def KeyEvent_def set_event_type_def allow_modifier_or_neutral_toggle_def
  toggle_neutral_def
lemmas example_defs = idle_state_def plain_cfg_def physical_key_def plain_kvk_def blank_key_def
  modifier_mask_of_vk_def forced_numlock_def both_win_held_def lwin_held_def ctrl_alt_held_def
  both_alt_held_def lalt_held_def win2000_cfg_def injected_key_def lwin_disguise_armed_def
  ignored_key_def
lemmas example3_defs = caps_prefix_idle_def caps_prefix_held_def shift_prefix_forced_def

subsection \<open>What the tracking functions leave alone\<close>

lemma tview_upd [simp]:
  "tview (s\<lparr>next_phys_shift_down_is_not_phys := a1\<rparr>) = tview s"
  "tview (s\<lparr>prior_vk := a2\<rparr>) = tview s"
  "tview (s\<lparr>prior_sc := a3\<rparr>) = tview s"
  "tview (s\<lparr>prior_event_was_key_up := a4\<rparr>) = tview s"
  "tview (s\<lparr>prior_event_was_physical := a5\<rparr>) = tview s"
  "tview (s\<lparr>prior_event_tickcount := a6\<rparr>) = tview s"
  "tview (s\<lparr>prior_modifiersLR_physical := a7\<rparr>) = tview s"
  "tview (s\<lparr>prior_shift_state := a8\<rparr>) = tview s"
  "tview (s\<lparr>prior_lshift_state := a9\<rparr>) = tview s"
  "tview (s\<lparr>g_modifiersLR_logical := a10\<rparr>) = tview s"
  "tview (s\<lparr>g_modifiersLR_physical := a11\<rparr>) = tview s"
  "tview (s\<lparr>g_PhysicalKeyState := a12\<rparr>) = tview s"
  "tview (s\<lparr>g_TimeLastInputPhysical := a13\<rparr>) = tview s"
  by (simp_all add: tview_def)

lemma EventIsPhysical_tview [simp]:
  "tview (snd (EventIsPhysical now pEvent sc key_up s)) = tview s"
  by (simp add: EventIsPhysical_def)

lemma modifier_case_tview [simp]:
  "tview (modifier_case now pEvent sc key_up aIsSuppressed m vk_side neutral s) = tview s"
  by (simp add: modifier_case_def Let_def split: option.split prod.split)

lemma UpdateModifierState_tview [simp]:
  "tview (UpdateModifierState now pEvent sc key_up aIsSuppressed s) = tview s"
  by (simp add: UpdateModifierState_def Let_def)

lemma UpdateKeyState_tview [simp]:
  "tview (UpdateKeyState now pEvent sc key_up aIsSuppressed s) = tview s"
  by (simp add: UpdateKeyState_def Let_def)

lemma tview_fields:
  assumes "tview s' = tview s"
  shows "kvk s' = kvk s" and "ksc s' = ksc s" and "toggle_store s' = toggle_store s"
    and "pPrefixKey s' = pPrefixKey s"
    and "disguise_next_lwin_up s' = disguise_next_lwin_up s"
    and "disguise_next_rwin_up s' = disguise_next_rwin_up s"
    and "disguise_next_lalt_up s' = disguise_next_lalt_up s"
    and "disguise_next_ralt_up s' = disguise_next_ralt_up s"
    and "alt_tab_menu_is_visible s' = alt_tab_menu_is_visible s"
    and "g_KeyHistory s' = g_KeyHistory s" and "g_KeyHistoryNext s' = g_KeyHistoryNext s"
    and "pad_state s' = pad_state s"
    and "emitted s' = emitted s" and "posted s' = posted s"
proof -
  have f: "\<And>g. g (tview s') = g (tview s)" using assms by simp
  show "kvk s' = kvk s" using f [of kvk] by (simp add: tview_def)
  show "ksc s' = ksc s" using f [of ksc] by (simp add: tview_def)
  show "toggle_store s' = toggle_store s" using f [of toggle_store] by (simp add: tview_def)
  show "pPrefixKey s' = pPrefixKey s" using f [of pPrefixKey] by (simp add: tview_def)
  show "disguise_next_lwin_up s' = disguise_next_lwin_up s"
    using f [of disguise_next_lwin_up] by (simp add: tview_def)
  show "disguise_next_rwin_up s' = disguise_next_rwin_up s"
    using f [of disguise_next_rwin_up] by (simp add: tview_def)
  show "disguise_next_lalt_up s' = disguise_next_lalt_up s"
    using f [of disguise_next_lalt_up] by (simp add: tview_def)
  show "disguise_next_ralt_up s' = disguise_next_ralt_up s"
    using f [of disguise_next_ralt_up] by (simp add: tview_def)
  show "alt_tab_menu_is_visible s' = alt_tab_menu_is_visible s"
    using f [of alt_tab_menu_is_visible] by (simp add: tview_def)
  show "g_KeyHistory s' = g_KeyHistory s" using f [of g_KeyHistory] by (simp add: tview_def)
  show "g_KeyHistoryNext s' = g_KeyHistoryNext s"
    using f [of g_KeyHistoryNext] by (simp add: tview_def)
  show "pad_state s' = pad_state s" using f [of pad_state] by (simp add: tview_def)
  show "emitted s' = emitted s" using f [of emitted] by (simp add: tview_def)
  show "posted s' = posted s" using f [of posted] by (simp add: tview_def)
qed

lemmas UpdateKeyState_fields [simp] = tview_fields [OF UpdateKeyState_tview]
lemmas UpdateModifierState_fields [simp] = tview_fields [OF UpdateModifierState_tview]
lemmas EventIsPhysical_fields [simp] = tview_fields [OF EventIsPhysical_tview]

lemma EventIsPhysical_logical [simp]:
  "g_modifiersLR_logical (snd (EventIsPhysical now pEvent sc key_up s)) = g_modifiersLR_logical s"
  by (simp add: EventIsPhysical_def)

lemma DualStateNumpadKeyIsDown_iff: "DualStateNumpadKeyIsDown s = (\<exists>p. pad_state s p)"
proof
  assume "DualStateNumpadKeyIsDown s"
  then show "\<exists>p. pad_state s p"
    by (auto simp add: DualStateNumpadKeyIsDown_def list_ex_iff)
next
  assume "\<exists>p. pad_state s p"
  then obtain p where p: "pad_state s p" ..
  have "p \<in> set pad_all" by (cases p) (simp_all add: pad_all_def)
  with p show "DualStateNumpadKeyIsDown s"
    by (auto simp add: DualStateNumpadKeyIsDown_def list_ex_iff)
qed

subsection \<open>C1: the classification of non-injected events\<close>

text \<open>
  Claim C1. For a keyboard event that is not injected, \<^verbatim>\<open>EventIsPhysical\<close> answers
  ``not physical'' exactly when the event is a key-down of \<^verbatim>\<open>VK_LSHIFT\<close> or
  \<^verbatim>\<open>VK_SHIFT\<close> (so never for \<^verbatim>\<open>VK_RSHIFT\<close>) and either the flag
  \<^verbatim>\<open>next_phys_shift_down_is_not_phys\<close> is set while no entry of \<^verbatim>\<open>pad_state\<close>
  is set, or the prior event was a key-up of a dual-state numpad key whose tick count lies
  less than 22 ms back (the \<^verbatim>\<open>DWORD\<close> difference of the two tick counts). Every other
  non-injected event is physical. The flag is cleared exactly in the first of the two
  cases and is otherwise left as it was.
\<close>

theorem EventIsPhysical_shift_workaround:
  assumes "flags pEvent AND LLKHF_INJECTED = 0"
  shows "fst (EventIsPhysical now pEvent sc key_up s) =
           (\<not> ((vkCode pEvent = VK_LSHIFT \<or> vkCode pEvent = VK_SHIFT) \<and> \<not> key_up
               \<and> ((next_phys_shift_down_is_not_phys s \<and> (\<forall>p. \<not> pad_state s p))
                  \<or> (prior_event_was_key_up s \<and> IsDualStateNumpadKey (prior_vk s) (prior_sc s)
                      \<and> now - prior_event_tickcount s < 22))))
         \<and> next_phys_shift_down_is_not_phys (snd (EventIsPhysical now pEvent sc key_up s)) =
           (next_phys_shift_down_is_not_phys s
            \<and> \<not> ((vkCode pEvent = VK_LSHIFT \<or> vkCode pEvent = VK_SHIFT) \<and> \<not> key_up
                   \<and> (\<forall>p. \<not> pad_state s p)))"
  using assms
  by (auto simp add: EventIsPhysical_def SHIFT_KEY_WORKAROUND_TIMEOUT_def
        DualStateNumpadKeyIsDown_iff)

text \<open>With the flag set and no numpad key held, a left-shift down from the driver is not
  physical and consumes the flag; a right-shift down in the same state is physical.\<close>

theorem EventIsPhysical_shift_workaround_witness:
  "flags (physical_key VK_LSHIFT 0x2A) AND LLKHF_INJECTED = 0
   \<and> \<not> fst (EventIsPhysical 1000 (physical_key VK_LSHIFT 0x2A) 0x2A False phantom_armed)
   \<and> \<not> next_phys_shift_down_is_not_phys
          (snd (EventIsPhysical 1000 (physical_key VK_LSHIFT 0x2A) 0x2A False phantom_armed))
   \<and> fst (EventIsPhysical 1000 (physical_key VK_RSHIFT 0x36) 0x136 False phantom_armed)"
proof -
  have h1: "flags (physical_key VK_LSHIFT 0x2A) AND LLKHF_INJECTED = 0"
    by (simp add: physical_key_def)
  have h2: "flags (physical_key VK_RSHIFT 0x36) AND LLKHF_INJECTED = 0"
    by (simp add: physical_key_def)
  show ?thesis
    using EventIsPhysical_shift_workaround [OF h1, of 1000 "0x2A" False phantom_armed]
          EventIsPhysical_shift_workaround [OF h2, of 1000 "0x136" False phantom_armed]
    by (simp add: phantom_armed_def idle_state_def physical_key_def vk_defs)
qed

subsection \<open>C7: a suppressed modifier event leaves the logical mask alone\<close>

lemma modifier_case_suppressed_logical:
  "g_modifiersLR_logical (modifier_case now pEvent sc key_up True m vk_side neutral s)
     = g_modifiersLR_logical s"
  by (simp add: modifier_case_def Let_def split: option.split prod.split)

lemma suppressed_view_upd [simp]:
  "suppressed_view (s\<lparr>g_modifiersLR_physical := a\<rparr>) = suppressed_view s"
  "suppressed_view (s\<lparr>g_PhysicalKeyState := b\<rparr>) = suppressed_view s"
  "suppressed_view (s\<lparr>next_phys_shift_down_is_not_phys := c\<rparr>) = suppressed_view s"
  "suppressed_view (s\<lparr>g_TimeLastInputPhysical := d\<rparr>) = suppressed_view s"
  by (simp_all add: suppressed_view_def)

lemma EventIsPhysical_suppressed_view [simp]:
  "suppressed_view (snd (EventIsPhysical now pEvent sc key_up s)) = suppressed_view s"
  by (simp add: EventIsPhysical_def)

lemma modifier_case_suppressed_view:
  "suppressed_view (modifier_case now pEvent sc key_up True m vk_side neutral s)
     = suppressed_view s"
  by (simp add: modifier_case_def Let_def split: option.split prod.split)

text \<open>
  Claim C7, amended. \<^verbatim>\<open>UpdateModifierState\<close> called with \<^verbatim>\<open>aIsSuppressed = true\<close>
  returns a state with the same \<^verbatim>\<open>g_modifiersLR_logical\<close>, for every event, scan
  code and direction. The fields it can write are four, not two: besides
  \<^verbatim>\<open>g_modifiersLR_physical\<close> and \<^verbatim>\<open>g_PhysicalKeyState\<close> the two that its call of
  \<^verbatim>\<open>EventIsPhysical\<close> writes, \<^verbatim>\<open>next_phys_shift_down_is_not_phys\<close> and
  \<^verbatim>\<open>g_TimeLastInputPhysical\<close>. Every other field is unchanged.
\<close>

theorem UpdateModifierState_suppressed_frame:
  "g_modifiersLR_logical (UpdateModifierState now pEvent sc key_up True s)
     = g_modifiersLR_logical s
   \<and> suppressed_view (UpdateModifierState now pEvent sc key_up True s) = suppressed_view s"
  by (simp add: UpdateModifierState_def Let_def modifier_case_suppressed_logical
        modifier_case_suppressed_view)

text \<open>A suppressed physical left-shift down sets the physical bit and not the logical
  one; the same event unsuppressed sets the logical bit.\<close>

theorem UpdateModifierState_suppressed_frame_witness:
  "g_modifiersLR_logical
     (UpdateModifierState 1000 (physical_key VK_LSHIFT 0x2A) 0x2A False True idle_state) = 0
   \<and> g_modifiersLR_physical
     (UpdateModifierState 1000 (physical_key VK_LSHIFT 0x2A) 0x2A False True idle_state)
       = MOD_LSHIFT
   \<and> g_modifiersLR_logical
     (UpdateModifierState 1000 (physical_key VK_LSHIFT 0x2A) 0x2A False False idle_state)
       = MOD_LSHIFT
   \<and> suppressed_view
     (UpdateModifierState 1000 (physical_key VK_LSHIFT 0x2A) 0x2A False True idle_state)
       = suppressed_view idle_state"
  using UpdateModifierState_suppressed_frame
          [of 1000 "physical_key VK_LSHIFT 0x2A" "0x2A" False idle_state]
  by (simp add: UpdateModifierState_def modifier_case_def EventIsPhysical_def Let_def
        idle_state_def physical_key_def vk_defs)

text \<open>Claim C7 as stated lets only the physical mask and the physical key table change.
  Two suppressed modifier events change another field. A left-shift down that arrives with the phantom flag armed
  consumes the flag; a physical left-Win down stamped 5000 moves
  \<^verbatim>\<open>g_TimeLastInputPhysical\<close> from 0 to 5000.\<close>

theorem UpdateModifierState_suppressed_counterexample:
  "next_phys_shift_down_is_not_phys phantom_armed
   \<and> \<not> next_phys_shift_down_is_not_phys
         (UpdateModifierState 1000 (physical_key VK_LSHIFT 0x2A) 0x2A False True phantom_armed)
   \<and> g_TimeLastInputPhysical idle_state = 0
   \<and> g_TimeLastInputPhysical
         (UpdateModifierState 1000 ((physical_key VK_LWIN 0x5B)\<lparr>time := 5000\<rparr>) 0x5B False True
            idle_state) = 5000"
  by (simp add: UpdateModifierState_def modifier_case_def tracker_defs Let_def
        phantom_armed_def idle_state_def physical_key_def vk_defs)

subsection \<open>C5: the Numlock restoration\<close>

text \<open>
  Claim C5. \<^verbatim>\<open>SuppressThisKeyFunc\<close> always suppresses. For a key-down of
  \<^verbatim>\<open>VK_NUMLOCK\<close> whose extra info is not \<^verbatim>\<open>KEYIGNORE\<close> it emits exactly the
  four Numlock events up, down, up, down, in this order, each with the ignore tag that
  \<^verbatim>\<open>KeyEvent\<close> attaches; for every other event, among them a Numlock key-up and a
  Numlock event tagged \<^verbatim>\<open>KEYIGNORE\<close>, it emits nothing.
\<close>

theorem SuppressThisKeyFunc_numlock_emission:
  "fst (SuppressThisKeyFunc now pEvent sc key_up pKeyHistoryCurr s) = Suppressed
   \<and> emitted (snd (SuppressThisKeyFunc now pEvent sc key_up pKeyHistoryCurr s)) =
       emitted s @
       (if vkCode pEvent = VK_NUMLOCK \<and> \<not> key_up \<and> dwExtraInfo pEvent \<noteq> KEYIGNORE
        then [numlock_event KEYUP, numlock_event KEYDOWN, numlock_event KEYUP,
              numlock_event KEYDOWN]
        else [])"
  by (simp add: SuppressThisKeyFunc_def Let_def KeyEvent_def set_event_type_def
        numlock_event_def)

theorem SuppressThisKeyFunc_numlock_emission_witness:
  "emitted (snd (SuppressThisKeyFunc 1000 (physical_key VK_NUMLOCK 0x45) 0x145 False 0 idle_state))
     = [numlock_event KEYUP, numlock_event KEYDOWN, numlock_event KEYUP, numlock_event KEYDOWN]
   \<and> emitted (snd (SuppressThisKeyFunc 1000 (physical_key VK_NUMLOCK 0x45) 0x145 True 0 idle_state))
     = []
   \<and> emitted (snd (SuppressThisKeyFunc 1000
        ((physical_key VK_NUMLOCK 0x45)\<lparr>flags := LLKHF_INJECTED, dwExtraInfo := KEYIGNORE\<rparr>)
        0x145 False 0 idle_state)) = []"
  using SuppressThisKeyFunc_numlock_emission
          [of 1000 "physical_key VK_NUMLOCK 0x45" "0x145" False 0 idle_state]
        SuppressThisKeyFunc_numlock_emission
          [of 1000 "physical_key VK_NUMLOCK 0x45" "0x145" True 0 idle_state]
        SuppressThisKeyFunc_numlock_emission
          [of 1000 "(physical_key VK_NUMLOCK 0x45)\<lparr>flags := LLKHF_INJECTED,
                                                    dwExtraInfo := KEYIGNORE\<rparr>"
              "0x145" False 0 idle_state]
  by (simp add: idle_state_def physical_key_def vk_defs)

subsection \<open>C10: the allow path suppresses a key whose toggle state is forced\<close>

text \<open>
  Claim C10. For an event that does not carry \<^verbatim>\<open>KEYIGNORE\<close>, if the record
  \<^verbatim>\<open>kvk[vkCode]\<close> has a non-null \<^verbatim>\<open>pForceToggle\<close> whose target is not
  \<^verbatim>\<open>NEUTRAL\<close>, then \<^verbatim>\<open>AllowIt\<close> returns the suppressing verdict, for a
  key-down and for a key-up, with or without \<^verbatim>\<open>DisguiseWinAlt\<close>.
\<close>

theorem AllowIt_forced_toggle_is_suppressed:
  assumes "dwExtraInfo pEvent \<noteq> KEYIGNORE"
    and "pForceToggle (kvk s (vkCode pEvent)) = Some p"
    and "toggle_store s p \<noteq> NEUTRAL"
  shows "fst (AllowIt cfg now pEvent sc key_up pKeyHistoryCurr DisguiseWinAlt s) = Suppressed"
  using assms by (simp add: AllowIt_def toggle_is_forced_def SuppressThisKeyFunc_def Let_def)

theorem AllowIt_forced_toggle_is_suppressed_witness:
  "dwExtraInfo (physical_key VK_NUMLOCK 0x45) \<noteq> KEYIGNORE
   \<and> pForceToggle (kvk forced_numlock (vkCode (physical_key VK_NUMLOCK 0x45))) = Some 0
   \<and> toggle_store forced_numlock 0 \<noteq> NEUTRAL
   \<and> fst (AllowIt plain_cfg 1000 (physical_key VK_NUMLOCK 0x45) 0x145 False 0 False forced_numlock)
       = Suppressed
   \<and> fst (AllowIt plain_cfg 1000 (physical_key VK_NUMLOCK 0x45) 0x145 True 0 False forced_numlock)
       = Suppressed"
proof -
  have h1: "dwExtraInfo (physical_key VK_NUMLOCK 0x45) \<noteq> KEYIGNORE"
    by (simp add: physical_key_def vk_defs)
  have h2: "pForceToggle (kvk forced_numlock (vkCode (physical_key VK_NUMLOCK 0x45))) = Some 0"
    by (simp add: forced_numlock_def idle_state_def physical_key_def blank_key_def)
  have h3: "toggle_store forced_numlock 0 \<noteq> NEUTRAL"
    by (simp add: forced_numlock_def idle_state_def)
  show ?thesis
    using h1 h2 h3
      AllowIt_forced_toggle_is_suppressed [OF h1 h2 h3, of plain_cfg 1000 "0x145" False 0 False]
      AllowIt_forced_toggle_is_suppressed [OF h1 h2 h3, of plain_cfg 1000 "0x145" True 0 False]
    by simp
qed

subsection \<open>C9: the reset before the Win-L lock\<close>

lemma UpdateKeyState_logical_nonmodifier:
  "as_modifiersLR (kvk s (vkCode pEvent)) = 0 \<Longrightarrow>
   g_modifiersLR_logical (UpdateKeyState now pEvent sc key_up aIsSuppressed s)
     = g_modifiersLR_logical s"
  by (simp add: UpdateKeyState_def Let_def)

text \<open>
  Claim C9 asks for the reset of both masks when an \<^verbatim>\<open>'L'\<close> key-down passes through
  on XP or later while the logical mask holds LWIN alone, RWIN alone or both. The third
  comparison of the source is against \<^verbatim>\<open>(MOD_RWIN | MOD_RWIN)\<close>, which is
  \<^verbatim>\<open>MOD_RWIN\<close> again, so the case of both Windows keys is missed: with
  \<^verbatim>\<open>g_modifiersLR_logical == (MOD_LWIN | MOD_RWIN)\<close> the event passes through
  \<^verbatim>\<open>AllowIt\<close> and the logical mask keeps both bits, on every OS version.
\<close>

theorem AllowIt_win_l_with_both_win_keys:
  assumes "vkCode pEvent = VK_L"
    and "g_modifiersLR_logical s = MOD_LWIN OR MOD_RWIN"
    and "as_modifiersLR (kvk s VK_L) = 0"
    and "pForceToggle (kvk s VK_L) = None"
  shows "fst (AllowIt cfg now pEvent sc False pKeyHistoryCurr False s) = PassedOn
         \<and> g_modifiersLR_logical (snd (AllowIt cfg now pEvent sc False pKeyHistoryCurr False s))
             = MOD_LWIN OR MOD_RWIN"
  using assms
  by (simp add: AllowIt_def toggle_is_forced_def Let_def win_l_reset_def ctrl_alt_del_reset_def
        UpdateKeyState_logical_nonmodifier vk_defs)

text \<open>On XP with both Windows keys held the logical mask is not zero after the
  \<^verbatim>\<open>'L'\<close> key-down; with the left Windows key alone it is.\<close>

theorem AllowIt_win_l_with_both_win_keys_witness:
  "IsWinXPorLater plain_cfg
   \<and> g_modifiersLR_logical both_win_held = MOD_LWIN OR MOD_RWIN
   \<and> fst (AllowIt plain_cfg 1000 (physical_key VK_L 0x26) 0x26 False 0 False both_win_held) = PassedOn
   \<and> g_modifiersLR_logical
        (snd (AllowIt plain_cfg 1000 (physical_key VK_L 0x26) 0x26 False 0 False both_win_held))
        \<noteq> 0
   \<and> g_modifiersLR_logical
        (snd (AllowIt plain_cfg 1000 (physical_key VK_L 0x26) 0x26 False 0 False lwin_held)) = 0"
proof -
  have h1: "vkCode (physical_key VK_L 0x26) = VK_L" by (simp add: physical_key_def)
  have h2: "g_modifiersLR_logical both_win_held = MOD_LWIN OR MOD_RWIN"
    by (simp add: both_win_held_def idle_state_def)
  have h3: "as_modifiersLR (kvk both_win_held VK_L) = 0"
    by (simp add: example_defs vk_defs)
  have h4: "pForceToggle (kvk both_win_held VK_L) = None"
    by (simp add: example_defs)
  have lw: "g_modifiersLR_logical
        (snd (AllowIt plain_cfg 1000 (physical_key VK_L 0x26) 0x26 False 0 False lwin_held)) = 0"
    by (simp add: example_defs verdict_defs tracker_defs Let_def vk_defs)
  show ?thesis
    using AllowIt_win_l_with_both_win_keys [OF h1 h2 h3 h4, of plain_cfg 1000 "0x26" 0] h2 lw
    by (simp add: plain_cfg_def vk_defs)
qed

subsection \<open>C6: the neutral entries of the physical key table\<close>

lemma EventIsPhysical_PKS [simp]:
  "g_PhysicalKeyState (snd (EventIsPhysical now pEvent sc key_up s)) = g_PhysicalKeyState s"
  by (simp add: EventIsPhysical_def)

lemma EventIsPhysical_fst_logical [simp]:
  "fst (EventIsPhysical now pEvent sc key_up (s\<lparr>g_modifiersLR_logical := x\<rparr>))
     = fst (EventIsPhysical now pEvent sc key_up s)"
  by (simp add: EventIsPhysical_def DualStateNumpadKeyIsDown_def)

lemma modifier_case_PKS:
  "g_PhysicalKeyState (modifier_case now pEvent sc key_up aIsSuppressed m vk_side neutral s) =
     (if fst (EventIsPhysical now pEvent sc key_up s) then
        (if key_up then
           (case neutral of None \<Rightarrow> (g_PhysicalKeyState s)(vk_side := False)
            | Some (vk_neutral, vk_other) \<Rightarrow>
                (g_PhysicalKeyState s)(vk_side := False,
                   vk_neutral := ((g_PhysicalKeyState s)(vk_side := False)) vk_other))
         else
           (case neutral of None \<Rightarrow> (g_PhysicalKeyState s)(vk_side := True)
            | Some (vk_neutral, vk_other) \<Rightarrow>
                (g_PhysicalKeyState s)(vk_neutral := True, vk_side := True)))
      else g_PhysicalKeyState s)"
  by (simp add: modifier_case_def Let_def split: option.split)

text \<open>The switch of \<^verbatim>\<open>UpdateModifierState\<close> keeps every neutral entry equal to the
  disjunction of its two sides.\<close>

lemma UpdateModifierState_neutral_consistent:
  "neutral_consistent s \<Longrightarrow>
   neutral_consistent (UpdateModifierState now pEvent sc key_up aIsSuppressed s)"
  by (simp add: UpdateModifierState_def Let_def modifier_case_PKS neutral_consistent_def vk_defs)

text \<open>
  Claim C6 states that after every event each neutral entry of
  \<^verbatim>\<open>g_PhysicalKeyState\<close> equals the disjunction of its left and right entries. The
  Ctrl-Alt-Del reset of \<^verbatim>\<open>AllowIt\<close> (Windows 2000 and NT4) clears the four
  side-specific control and alt entries and leaves \<^verbatim>\<open>VK_CONTROL\<close> and
  \<^verbatim>\<open>VK_MENU\<close> as they were. Started in a consistent state with left control and left
  alt held, the hook passes a physical Delete key-down through and ends in a state in
  which the neutral entries are still down although both sides are up.
\<close>

theorem ctrl_alt_del_breaks_neutral_consistency:
  "neutral_consistent ctrl_alt_held
   \<and> fst (LowLevelKeybdProc win2000_cfg 1000 False HC_ACTION WM_KEYDOWN
             (physical_key VK_DELETE 0x53) ctrl_alt_held) = PassedOn
   \<and> \<not> neutral_consistent
         (snd (LowLevelKeybdProc win2000_cfg 1000 False HC_ACTION WM_KEYDOWN
                 (physical_key VK_DELETE 0x53) ctrl_alt_held))"
  by (simp add: neutral_consistent_def LowLevelKeybdProc_def dispatch_def head_defs
        verdict_defs tracker_defs example_defs Let_def vk_defs)

subsection \<open>What the verdict functions and the head of the hook leave alone\<close>

lemma kview_fields:
  assumes "kview s' = kview s"
  shows "kvk s' = kvk s" and "ksc s' = ksc s" and "toggle_store s' = toggle_store s"
    and "pPrefixKey s' = pPrefixKey s"
    and "disguise_next_lwin_up s' = disguise_next_lwin_up s"
    and "disguise_next_rwin_up s' = disguise_next_rwin_up s"
    and "disguise_next_lalt_up s' = disguise_next_lalt_up s"
    and "disguise_next_ralt_up s' = disguise_next_ralt_up s"
    and "posted s' = posted s"
  using assms by (simp_all add: kview_def)

lemma kview_tview:
  assumes "tview s' = tview s"
  shows "kview s' = kview s"
  unfolding kview_def using tview_fields [OF assms] by simp

lemma kview_tracker [simp]:
  "kview (UpdateKeyState now pEvent sc key_up aIsSuppressed s) = kview s"
  "kview (snd (EventIsPhysical now pEvent sc key_up s)) = kview s"
  by (rule kview_tview, simp)+

lemma kview_basic [simp]:
  "kview (KeyEvent t vk sc s) = kview s"
  "kview (set_event_type h c s) = kview s"
  "kview (s\<lparr>alt_tab_menu_is_visible := b\<rparr>) = kview s"
  "kview (s\<lparr>g_PhysicalKeyState := f\<rparr>) = kview s"
  by (simp_all add: kview_def KeyEvent_def set_event_type_def)

lemma kview_head [simp]:
  "kview (new_history_item cfg pEvent sc key_up s) = kview s"
  "kview (track_pad_state numlock_on vk sc key_up s) = kview s"
  "kview (alt_tab_menu_heuristic vk key_up s) = kview s"
  "kview (track_physical_key now pEvent sc key_up s) = kview s"
     apply (simp add: new_history_item_def Let_def kview_def)
    apply (simp add: track_pad_state_def kview_def split: option.split)
   apply (simp add: alt_tab_menu_heuristic_def)
  apply (simp add: track_physical_key_def Let_def)
  done

lemma emitted_head [simp]:
  "emitted (new_history_item cfg pEvent sc key_up s) = emitted s"
  "emitted (track_pad_state numlock_on vk sc key_up s) = emitted s"
  "emitted (alt_tab_menu_heuristic vk key_up s) = emitted s"
  "emitted (track_physical_key now pEvent sc key_up s) = emitted s"
     apply (simp add: new_history_item_def Let_def)
    apply (simp add: track_pad_state_def split: option.split)
   apply (simp add: alt_tab_menu_heuristic_def)
  apply (simp add: track_physical_key_def Let_def)
  done

lemma SuppressThisKeyFunc_kview [simp]:
  "kview (snd (SuppressThisKeyFunc now pEvent sc key_up h s)) = kview s"
  by (simp add: SuppressThisKeyFunc_def Let_def)

lemma SuppressThisKeyFunc_fst [simp]:
  "fst (SuppressThisKeyFunc now pEvent sc key_up h s) = Suppressed"
  by (simp add: SuppressThisKeyFunc_def Let_def)

lemma SuppressThisKeyFunc_emitted:
  "emitted (snd (SuppressThisKeyFunc now pEvent sc key_up h s)) =
     emitted s @
       (if vkCode pEvent = VK_NUMLOCK \<and> \<not> key_up \<and> dwExtraInfo pEvent \<noteq> KEYIGNORE
        then [numlock_event KEYUP, numlock_event KEYDOWN, numlock_event KEYUP,
              numlock_event KEYDOWN]
        else [])"
  by (simp add: SuppressThisKeyFunc_def Let_def KeyEvent_def set_event_type_def
        numlock_event_def)

lemma win_l_reset_kview [simp]: "kview (win_l_reset cfg pEvent key_up s) = kview s"
  by (simp add: win_l_reset_def kview_def)

lemma ctrl_alt_del_reset_kview [simp]: "kview (ctrl_alt_del_reset cfg pEvent key_up s) = kview s"
  by (simp add: ctrl_alt_del_reset_def kview_def)

lemma AllowIt_kview [simp]:
  "kview (snd (AllowIt cfg now pEvent sc key_up h d s)) = kview s"
  by (simp add: AllowIt_def Let_def)

lemmas head_fields [simp] =
  kview_fields [OF kview_head(1)] kview_fields [OF kview_head(2)]
  kview_fields [OF kview_head(3)] kview_fields [OF kview_head(4)]
lemmas SuppressThisKeyFunc_fields [simp] = kview_fields [OF SuppressThisKeyFunc_kview]
lemmas AllowIt_fields [simp] = kview_fields [OF AllowIt_kview]
lemmas KeyEvent_fields [simp] = kview_fields [OF kview_basic(1)]
lemmas set_event_type_fields [simp] = kview_fields [OF kview_basic(2)]

lemma emitted_KeyEvent [simp]:
  "emitted (KeyEvent t vk sc s) =
     emitted s @ [\<lparr>ke_type = t, ke_vk = vk, ke_sc = sc, ke_extra = KEYIGNORE\<rparr>]"
  by (simp add: KeyEvent_def)

lemma clear_disguise_flag_emitted [simp]: "emitted (clear_disguise_flag vk s) = emitted s"
  by (simp add: clear_disguise_flag_def)


subsection \<open>C4: the armed disguise of a Windows or Alt key-up\<close>

text \<open>
  Claim C4, amended. For every key-up of \<^verbatim>\<open>VK_LWIN\<close>, \<^verbatim>\<open>VK_RWIN\<close>,
  \<^verbatim>\<open>VK_LMENU\<close>, \<^verbatim>\<open>VK_MENU\<close> or \<^verbatim>\<open>VK_RMENU\<close> that does not carry
  the ignore tag and arrives (with \<^verbatim>\<open>HC_ACTION\<close>) while the disguise flag of that
  key is armed (\<^verbatim>\<open>VK_MENU\<close> counts as the left alt key), the hook suppresses the
  event, emits exactly SHIFT down, the key's up with the event's scan code, SHIFT up, in
  this order, clears the flag of that key and leaves the other three flags alone.
\<close>

theorem armed_disguise_replaces_key_up:
  assumes "dwExtraInfo pEvent \<noteq> KEYIGNORE"
    and "wParam = WM_KEYUP \<or> wParam = WM_SYSKEYUP"
    and "(vkCode pEvent = VK_LWIN \<and> disguise_next_lwin_up s)
         \<or> (vkCode pEvent = VK_RWIN \<and> disguise_next_rwin_up s)
         \<or> ((vkCode pEvent = VK_LMENU \<or> vkCode pEvent = VK_MENU) \<and> disguise_next_lalt_up s)
         \<or> (vkCode pEvent = VK_RMENU \<and> disguise_next_ralt_up s)"
  shows "fst (LowLevelKeybdProc cfg now numlock_on HC_ACTION wParam pEvent s) = Suppressed
     \<and> emitted (snd (LowLevelKeybdProc cfg now numlock_on HC_ACTION wParam pEvent s))
         = emitted s @ disguise_events (vkCode pEvent) (normalize_sc cfg pEvent)
     \<and> disguise_next_lwin_up (snd (LowLevelKeybdProc cfg now numlock_on HC_ACTION wParam pEvent s))
         = (disguise_next_lwin_up s \<and> vkCode pEvent \<noteq> VK_LWIN)
     \<and> disguise_next_rwin_up (snd (LowLevelKeybdProc cfg now numlock_on HC_ACTION wParam pEvent s))
         = (disguise_next_rwin_up s \<and> vkCode pEvent \<noteq> VK_RWIN)
     \<and> disguise_next_lalt_up (snd (LowLevelKeybdProc cfg now numlock_on HC_ACTION wParam pEvent s))
         = (disguise_next_lalt_up s \<and> vkCode pEvent \<noteq> VK_LMENU \<and> vkCode pEvent \<noteq> VK_MENU)
     \<and> disguise_next_ralt_up (snd (LowLevelKeybdProc cfg now numlock_on HC_ACTION wParam pEvent s))
         = (disguise_next_ralt_up s \<and> vkCode pEvent \<noteq> VK_RMENU)"
proof -
  define key_up where "key_up = (wParam = WM_KEYUP \<or> wParam = WM_SYSKEYUP)"
  define sc where "sc = normalize_sc cfg pEvent"
  define s4 where "s4 = track_physical_key now pEvent sc key_up
     (alt_tab_menu_heuristic (vkCode pEvent) key_up
       (track_pad_state numlock_on (vkCode pEvent) sc key_up
         (new_history_item cfg pEvent sc key_up s)))"
  define l where "l = \<lparr>l_cfg = cfg, l_now = now, l_pEvent = pEvent, l_vk = vkCode pEvent,
     l_sc = sc, l_key_up = key_up, l_pKeyHistoryCurr = g_KeyHistoryNext s,
     l_pThisKey = (if sc_takes_precedence (ksc s4 sc) then KSC sc else KVK (vkCode pEvent))\<rparr>"
  have ku: key_up using assms(2) by (simp add: key_up_def)
  have armed: "disguise_is_armed (vkCode pEvent) key_up s4"
    using assms(3) ku by (auto simp add: disguise_is_armed_def s4_def)
  have run: "LowLevelKeybdProc cfg now numlock_on HC_ACTION wParam pEvent s = disguised_key_up l s4"
    using assms(1) armed
    by (simp add: LowLevelKeybdProc_def Let_def l_def s4_def sc_def key_up_def)
  have em: "emitted s4 = emitted s" by (simp add: s4_def)
  have fl: "disguise_next_lwin_up s4 = disguise_next_lwin_up s"
    "disguise_next_rwin_up s4 = disguise_next_rwin_up s"
    "disguise_next_lalt_up s4 = disguise_next_lalt_up s"
    "disguise_next_ralt_up s4 = disguise_next_ralt_up s"
    by (simp_all add: s4_def)
  have nl: "vkCode pEvent \<noteq> VK_NUMLOCK" using assms(3) by (auto simp add: vk_defs)
  show ?thesis
    unfolding run
    using nl em fl assms(3)
    by (auto simp add: disguised_key_up_def Let_def SuppressThisKey_def SuppressThisKeyFunc_emitted
          l_def disguise_events_def clear_disguise_flag_def sc_def vk_defs)
qed


theorem armed_disguise_replaces_key_up_witness:
  "dwExtraInfo (physical_key VK_LWIN 0x5B) \<noteq> KEYIGNORE
   \<and> disguise_next_lwin_up lwin_disguise_armed
   \<and> fst (LowLevelKeybdProc plain_cfg 1000 False HC_ACTION WM_KEYUP
             (physical_key VK_LWIN 0x5B) lwin_disguise_armed) = Suppressed
   \<and> emitted (snd (LowLevelKeybdProc plain_cfg 1000 False HC_ACTION WM_KEYUP
             (physical_key VK_LWIN 0x5B) lwin_disguise_armed)) = disguise_events VK_LWIN 0x5B
   \<and> \<not> disguise_next_lwin_up (snd (LowLevelKeybdProc plain_cfg 1000 False HC_ACTION WM_KEYUP
             (physical_key VK_LWIN 0x5B) lwin_disguise_armed))"
proof -
  have h1: "dwExtraInfo (physical_key VK_LWIN 0x5B) \<noteq> KEYIGNORE"
    by (simp add: physical_key_def vk_defs)
  have h2: "WM_KEYUP = WM_KEYUP \<or> WM_KEYUP = WM_SYSKEYUP" by simp
  have h3: "disguise_next_lwin_up lwin_disguise_armed"
    by (simp add: lwin_disguise_armed_def)
  have h4: "(vkCode (physical_key VK_LWIN 0x5B) = VK_LWIN \<and> disguise_next_lwin_up lwin_disguise_armed)
         \<or> (vkCode (physical_key VK_LWIN 0x5B) = VK_RWIN \<and> disguise_next_rwin_up lwin_disguise_armed)
         \<or> ((vkCode (physical_key VK_LWIN 0x5B) = VK_LMENU \<or> vkCode (physical_key VK_LWIN 0x5B) = VK_MENU)
             \<and> disguise_next_lalt_up lwin_disguise_armed)
         \<or> (vkCode (physical_key VK_LWIN 0x5B) = VK_RMENU \<and> disguise_next_ralt_up lwin_disguise_armed)"
    using h3 by (simp add: physical_key_def)
  have sc: "normalize_sc plain_cfg (physical_key VK_LWIN 0x5B) = 0x5B"
    by (simp add: normalize_sc_def physical_key_def plain_cfg_def Let_def vk_defs)
  have em: "emitted lwin_disguise_armed = []"
    by (simp add: lwin_disguise_armed_def lwin_held_def idle_state_def)
  show ?thesis
    using h1 h3 armed_disguise_replaces_key_up [OF h1 h2 h4, of plain_cfg 1000 False] sc em
    by (simp add: physical_key_def)
qed


text \<open>
  Claim C4 as stated covers every key-up that arrives while the flag is armed. A left
  Windows key-up that carries \<^verbatim>\<open>KEYIGNORE\<close> returns before the disguise is looked
  at: it is passed on, nothing is emitted and the flag stays armed.
\<close>

theorem armed_disguise_counterexample:
  "disguise_next_lwin_up lwin_disguise_armed
   \<and> fst (LowLevelKeybdProc plain_cfg 1000 False HC_ACTION WM_KEYUP
             (ignored_key VK_LWIN 0x5B) lwin_disguise_armed) = PassedOn
   \<and> emitted (snd (LowLevelKeybdProc plain_cfg 1000 False HC_ACTION WM_KEYUP
             (ignored_key VK_LWIN 0x5B) lwin_disguise_armed)) = []
   \<and> disguise_next_lwin_up (snd (LowLevelKeybdProc plain_cfg 1000 False HC_ACTION WM_KEYUP
             (ignored_key VK_LWIN 0x5B) lwin_disguise_armed))"
  by (simp add: LowLevelKeybdProc_def head_defs verdict_defs tracker_defs
        example_defs lwin_disguise_armed_def ignored_key_def Let_def vk_defs)


subsection \<open>Key records, the prefix slot and the way into the dispatcher\<close>

lemma deref_eq: "kvk s' = kvk s \<Longrightarrow> ksc s' = ksc s \<Longrightarrow> deref s' p = deref s p"
  by (cases p) simp_all

lemma deref_kview:
  assumes "kview s' = kview s"
  shows "deref s' p = deref s p"
  using kview_fields(1,2) [OF assms] by (rule deref_eq)

lemma deref_upd_key [simp]:
  "deref (upd_key p f s) q = (if q = p then f (deref s p) else deref s q)"
  by (cases p; cases q) simp_all

lemma upd_key_fields [simp]:
  "pPrefixKey (upd_key p f s) = pPrefixKey s"
  "toggle_store (upd_key p f s) = toggle_store s"
  "emitted (upd_key p f s) = emitted s"
  "posted (upd_key p f s) = posted s"
  "g_modifiersLR_logical (upd_key p f s) = g_modifiersLR_logical s"
  "alt_tab_menu_is_visible (upd_key p f s) = alt_tab_menu_is_visible s"
  by (cases p; simp)+

lemma toggle_neutral_eq:
  "toggle_store s' = toggle_store s \<Longrightarrow> pForceToggle k' = pForceToggle k \<Longrightarrow>
   toggle_neutral s' k' = toggle_neutral s k"
  by (simp add: toggle_neutral_def split: option.split)

lemma toggle_is_forced_upd_key:
  "(\<And>k. pForceToggle (f k) = pForceToggle k) \<Longrightarrow>
   toggle_is_forced pEvent (upd_key p f s) = toggle_is_forced pEvent s"
  by (cases p) (simp_all add: toggle_is_forced_def split: option.split)

lemma toggle_is_forced_eq:
  "kvk s' = kvk s \<Longrightarrow> toggle_store s' = toggle_store s \<Longrightarrow>
   toggle_is_forced pEvent s' = toggle_is_forced pEvent s"
  by (simp add: toggle_is_forced_def split: option.split)

lemma AllowIt_fst_key_down:
  "fst (AllowIt cfg now pEvent sc False h d s)
     = (if toggle_is_forced pEvent s then Suppressed else PassedOn)"
  by (simp add: AllowIt_def Let_def)




lemma upd_prefix_fields [simp]:
  "pPrefixKey (upd_prefix f s) = pPrefixKey s"
  "toggle_store (upd_prefix f s) = toggle_store s"
  "emitted (upd_prefix f s) = emitted s"
  "posted (upd_prefix f s) = posted s"
  "g_modifiersLR_logical (upd_prefix f s) = g_modifiersLR_logical s"
  "alt_tab_menu_is_visible (upd_prefix f s) = alt_tab_menu_is_visible s"
  by (simp_all add: upd_prefix_def split: option.split)

lemma deref_upd_prefix [simp]:
  "deref (upd_prefix f s) q = (if pPrefixKey s = Some q then f (deref s q) else deref s q)"
  by (auto simp add: upd_prefix_def split: option.split)

lemma toggle_is_forced_upd_prefix:
  "(\<And>k. pForceToggle (f k) = pForceToggle k) \<Longrightarrow>
   toggle_is_forced pEvent (upd_prefix f s) = toggle_is_forced pEvent s"
  by (simp add: upd_prefix_def toggle_is_forced_upd_key split: option.split)

lemma dispatch_Case1:
  assumes "\<not> l_key_up l"
    and "pPrefixKey s \<noteq> Some (l_pThisKey l)"
    and "used_as_prefix (deref s (l_pThisKey l))"
    and "pPrefixKey s = None \<or> \<not> used_as_suffix (deref s (l_pThisKey l))"
  shows "dispatch l s =
     Case1 l (upd_key (l_pThisKey l) (\<lambda>k. k\<lparr>is_down := True\<rparr>)
       (if pPrefixKey s \<noteq> None \<and> as_modifiersLR (deref s (l_pThisKey l)) = 0
        then upd_prefix (\<lambda>k. k\<lparr>was_just_used := AS_PREFIX\<rparr>) s else s))"
  using assms by (auto simp add: dispatch_def Let_def)

lemma hook_head_kview [simp]: "kview (hook_head cfg now numlock_on wParam pEvent s) = kview s"
  by (simp add: hook_head_def)

lemma hook_head_emitted [simp]:
  "emitted (hook_head cfg now numlock_on wParam pEvent s) = emitted s"
  by (simp add: hook_head_def)

lemmas hook_head_fields = kview_fields [OF hook_head_kview]

lemma hook_head_deref [simp]:
  "deref (hook_head cfg now numlock_on wParam pEvent s) q = deref s q"
  by (rule deref_kview) simp

lemma LowLevelKeybdProc_unfold:
  "LowLevelKeybdProc cfg now numlock_on HC_ACTION wParam pEvent s =
     (if dwExtraInfo pEvent = KEYIGNORE
      then AllowKeyToGoToSystem (hook_locals cfg now wParam pEvent s)
             (hook_head cfg now numlock_on wParam pEvent s)
      else if disguise_is_armed (vkCode pEvent) (is_key_up wParam) s
      then disguised_key_up (hook_locals cfg now wParam pEvent s)
             (hook_head cfg now numlock_on wParam pEvent s)
      else dispatch (hook_locals cfg now wParam pEvent s)
             (hook_head cfg now numlock_on wParam pEvent s))"
proof -
  have a: "disguise_is_armed (vkCode pEvent) (is_key_up wParam)
             (hook_head cfg now numlock_on wParam pEvent s)
           = disguise_is_armed (vkCode pEvent) (is_key_up wParam) s"
    by (simp add: disguise_is_armed_def hook_head_fields)
  have k: "ksc (hook_head cfg now numlock_on wParam pEvent s) = ksc s"
    by (rule hook_head_fields)
  show ?thesis
    unfolding a [symmetric]
    by (simp add: LowLevelKeybdProc_def Let_def hook_locals_def this_key_def
          k [unfolded hook_head_def] hook_head_def is_key_up_def)
qed

text \<open>An event tagged \<^verbatim>\<open>KEYIGNORE\<close>, as every event that the hook emits is when
  it comes back, is passed on, emits nothing, and leaves the key records, the toggle
  variables, the prefix slot, the disguise flags and the posted hotkeys as they were.\<close>

lemma ignored_event_frame:
  assumes "dwExtraInfo pEvent = KEYIGNORE"
  shows "kview (snd (LowLevelKeybdProc cfg now numlock_on code wParam pEvent s)) = kview s
     \<and> emitted (snd (LowLevelKeybdProc cfg now numlock_on code wParam pEvent s)) = emitted s
     \<and> fst (LowLevelKeybdProc cfg now numlock_on code wParam pEvent s) = PassedOn"
proof (cases "code = HC_ACTION")
  case False
  then show ?thesis by (simp add: LowLevelKeybdProc_def)
next
  case True
  have f: "\<not> toggle_is_forced pEvent t" for t using assms by (simp add: toggle_is_forced_def)
  have e: "emitted (snd (AllowIt c n pEvent x k h False t)) = emitted t" for c n x k h t
    using f by (simp add: AllowIt_def Let_def win_l_reset_def ctrl_alt_del_reset_def)
  have v: "fst (AllowIt c n pEvent x k h False t) = PassedOn" for c n x k h t
    using f by (simp add: AllowIt_def Let_def)
  show ?thesis
    unfolding True LowLevelKeybdProc_unfold using assms
    by (simp add: AllowKeyToGoToSystem_def e v hook_locals_def)
qed

subsection \<open>C8: the heuristic that marks the alt-tab menu visible\<close>

lemma head_parts_alt_tab:
  "alt_tab_menu_is_visible (track_physical_key now pEvent sc key_up s)
     = alt_tab_menu_is_visible s"
  "alt_tab_menu_is_visible (track_pad_state numlock_on vk sc key_up s)
     = alt_tab_menu_is_visible s"
  "alt_tab_menu_is_visible (new_history_item cfg pEvent sc key_up s)
     = alt_tab_menu_is_visible s"
  "g_modifiersLR_logical (track_pad_state numlock_on vk sc key_up s)
     = g_modifiersLR_logical s"
  "g_modifiersLR_logical (new_history_item cfg pEvent sc key_up s)
     = g_modifiersLR_logical s"
  by (simp_all add: track_physical_key_def track_pad_state_def new_history_item_def
        EventIsPhysical_def Let_def split: option.split)

lemma hook_head_alt_tab:
  "alt_tab_menu_is_visible (hook_head cfg now numlock_on wParam pEvent s) =
     (alt_tab_menu_is_visible s
      \<or> (vkCode pEvent = VK_TAB \<and> \<not> is_key_up wParam
         \<and> (g_modifiersLR_logical s AND MOD_LALT \<noteq> 0 \<or> g_modifiersLR_logical s AND MOD_RALT \<noteq> 0)
         \<and> g_modifiersLR_logical s AND MOD_LCONTROL = 0
         \<and> g_modifiersLR_logical s AND MOD_RCONTROL = 0))"
  unfolding hook_head_def head_parts_alt_tab(1)
  by (auto simp add: alt_tab_menu_heuristic_def head_parts_alt_tab)

lemma AllowIt_prelude_alt_tab:
  "alt_tab_menu_is_visible
     (ctrl_alt_del_reset c pEvent k (win_l_reset c pEvent k (UpdateKeyState n pEvent x k False t)))
   = alt_tab_menu_is_visible t"
proof -
  have "tview (ctrl_alt_del_reset c pEvent k
                (win_l_reset c pEvent k (UpdateKeyState n pEvent x k False t))) = tview t"
    by (simp add: win_l_reset_def ctrl_alt_del_reset_def)
  then show ?thesis by (rule tview_fields)
qed

lemma AllowIt_alt_tab_le:
  assumes "\<not> toggle_is_forced pEvent t"
      and "alt_tab_menu_is_visible (snd (AllowIt c n pEvent x k h False t))"
  shows "alt_tab_menu_is_visible t"
  using assms AllowIt_prelude_alt_tab [of c pEvent k n x t]
  unfolding AllowIt_def Let_def
  by (simp split: if_splits)

lemma AllowIt_alt_tab_tab:
  assumes "\<not> toggle_is_forced pEvent t" and "vkCode pEvent = VK_TAB"
  shows "alt_tab_menu_is_visible (snd (AllowIt c n pEvent x k h False t))
           = alt_tab_menu_is_visible t"
  using assms AllowIt_prelude_alt_tab [of c pEvent k n x t]
  unfolding AllowIt_def Let_def
  by (simp add: vk_defs)


text \<open>
  Claim C8, amended. \<open>hook_head\<close> is the state in which \<^verbatim>\<open>LowLevelKeybdProc\<close>
  reaches the test for \<^verbatim>\<open>KEYIGNORE\<close> at line 989; the heuristic of lines 967-970
  has run by then, for every event that arrives with \<^verbatim>\<open>HC_ACTION\<close>. In that state
  \<^verbatim>\<open>alt_tab_menu_is_visible\<close> is on exactly when it was on before or the event is a
  key-down of \<^verbatim>\<open>VK_TAB\<close>, at least one of the two ALT bits (one or both) is set in
  \<^verbatim>\<open>g_modifiersLR_logical\<close> and neither CTRL bit is set. The rest of the hook runs on
  that state. The test reads neither the injected flag nor the extra info, so the origin
  of the event plays no part: for an event the hook has synthesized itself, which returns
  at line 989, the whole hook turns the flag on under exactly the same condition. With any
  other code than \<^verbatim>\<open>HC_ACTION\<close> the state is returned as it was.
\<close>

theorem alt_tab_menu_heuristic_sets_flag:
  "alt_tab_menu_is_visible (hook_head cfg now numlock_on wParam pEvent s) =
     (alt_tab_menu_is_visible s
      \<or> (vkCode pEvent = VK_TAB \<and> \<not> is_key_up wParam
         \<and> (g_modifiersLR_logical s AND MOD_LALT \<noteq> 0 \<or> g_modifiersLR_logical s AND MOD_RALT \<noteq> 0)
         \<and> g_modifiersLR_logical s AND MOD_LCONTROL = 0
         \<and> g_modifiersLR_logical s AND MOD_RCONTROL = 0))
   \<and> (code = HC_ACTION \<longrightarrow>
        LowLevelKeybdProc cfg now numlock_on code wParam pEvent s =
          (if dwExtraInfo pEvent = KEYIGNORE
           then AllowKeyToGoToSystem (hook_locals cfg now wParam pEvent s)
                  (hook_head cfg now numlock_on wParam pEvent s)
           else if disguise_is_armed (vkCode pEvent) (is_key_up wParam) s
           then disguised_key_up (hook_locals cfg now wParam pEvent s)
                  (hook_head cfg now numlock_on wParam pEvent s)
           else dispatch (hook_locals cfg now wParam pEvent s)
                  (hook_head cfg now numlock_on wParam pEvent s)))
   \<and> (code = HC_ACTION \<and> dwExtraInfo pEvent = KEYIGNORE \<and> \<not> alt_tab_menu_is_visible s \<longrightarrow>
        alt_tab_menu_is_visible
          (snd (LowLevelKeybdProc cfg now numlock_on code wParam pEvent s)) =
        (vkCode pEvent = VK_TAB \<and> \<not> is_key_up wParam
         \<and> (g_modifiersLR_logical s AND MOD_LALT \<noteq> 0
            \<or> g_modifiersLR_logical s AND MOD_RALT \<noteq> 0)
         \<and> g_modifiersLR_logical s AND MOD_LCONTROL = 0
         \<and> g_modifiersLR_logical s AND MOD_RCONTROL = 0))
   \<and> (code \<noteq> HC_ACTION \<longrightarrow>
        snd (LowLevelKeybdProc cfg now numlock_on code wParam pEvent s) = s)"
proof (intro conjI impI)
  show "alt_tab_menu_is_visible (hook_head cfg now numlock_on wParam pEvent s) =
     (alt_tab_menu_is_visible s
      \<or> (vkCode pEvent = VK_TAB \<and> \<not> is_key_up wParam
         \<and> (g_modifiersLR_logical s AND MOD_LALT \<noteq> 0 \<or> g_modifiersLR_logical s AND MOD_RALT \<noteq> 0)
         \<and> g_modifiersLR_logical s AND MOD_LCONTROL = 0
         \<and> g_modifiersLR_logical s AND MOD_RCONTROL = 0))"
    by (rule hook_head_alt_tab)
next
  assume "code = HC_ACTION"
  then show "LowLevelKeybdProc cfg now numlock_on code wParam pEvent s =
          (if dwExtraInfo pEvent = KEYIGNORE
           then AllowKeyToGoToSystem (hook_locals cfg now wParam pEvent s)
                  (hook_head cfg now numlock_on wParam pEvent s)
           else if disguise_is_armed (vkCode pEvent) (is_key_up wParam) s
           then disguised_key_up (hook_locals cfg now wParam pEvent s)
                  (hook_head cfg now numlock_on wParam pEvent s)
           else dispatch (hook_locals cfg now wParam pEvent s)
                  (hook_head cfg now numlock_on wParam pEvent s))"
    by (simp only: LowLevelKeybdProc_unfold)
next
  assume a: "code = HC_ACTION \<and> dwExtraInfo pEvent = KEYIGNORE \<and> \<not> alt_tab_menu_is_visible s"
  define h where "h = hook_head cfg now numlock_on wParam pEvent s"
  define r where "r = snd (AllowIt cfg now pEvent (normalize_sc cfg pEvent) (is_key_up wParam)
                             (g_KeyHistoryNext s) False h)"
  have f: "\<not> toggle_is_forced pEvent h" using a by (simp add: toggle_is_forced_def)
  have e: "snd (LowLevelKeybdProc cfg now numlock_on code wParam pEvent s) = r"
    using a by (simp add: LowLevelKeybdProc_unfold AllowKeyToGoToSystem_def hook_locals_def
                  r_def h_def)
  have le: "alt_tab_menu_is_visible r \<Longrightarrow> alt_tab_menu_is_visible h"
    unfolding r_def by (rule AllowIt_alt_tab_le [OF f])
  have tab: "vkCode pEvent = VK_TAB \<Longrightarrow> alt_tab_menu_is_visible r = alt_tab_menu_is_visible h"
    unfolding r_def by (rule AllowIt_alt_tab_tab [OF f])
  have hd: "alt_tab_menu_is_visible h =
     (vkCode pEvent = VK_TAB \<and> \<not> is_key_up wParam
         \<and> (g_modifiersLR_logical s AND MOD_LALT \<noteq> 0 \<or> g_modifiersLR_logical s AND MOD_RALT \<noteq> 0)
         \<and> g_modifiersLR_logical s AND MOD_LCONTROL = 0
         \<and> g_modifiersLR_logical s AND MOD_RCONTROL = 0)"
    unfolding h_def hook_head_alt_tab using a by simp
  show "alt_tab_menu_is_visible
          (snd (LowLevelKeybdProc cfg now numlock_on code wParam pEvent s)) =
        (vkCode pEvent = VK_TAB \<and> \<not> is_key_up wParam
         \<and> (g_modifiersLR_logical s AND MOD_LALT \<noteq> 0
            \<or> g_modifiersLR_logical s AND MOD_RALT \<noteq> 0)
         \<and> g_modifiersLR_logical s AND MOD_LCONTROL = 0
         \<and> g_modifiersLR_logical s AND MOD_RCONTROL = 0)"
    unfolding e using le tab hd by blast
next
  assume "code \<noteq> HC_ACTION"
  then show "snd (LowLevelKeybdProc cfg now numlock_on code wParam pEvent s) = s"
    by (simp add: LowLevelKeybdProc_def)
qed

text \<open>Through the head of the hook: a physical Tab key-down with both ALT bits and an
  injected one with the left ALT bit set the flag; with a CTRL bit, on key-up, or without
  an ALT bit the flag stays off. Through the whole hook: a Tab key-down tagged
  \<^verbatim>\<open>KEYIGNORE\<close> sets the flag, and a call with another code changes nothing.\<close>

theorem alt_tab_menu_heuristic_sets_flag_witness:
  "alt_tab_menu_is_visible
     (hook_head plain_cfg 1000 False WM_KEYDOWN (physical_key VK_TAB 0x0F) both_alt_held)
   \<and> alt_tab_menu_is_visible
     (hook_head plain_cfg 1000 False WM_KEYDOWN (injected_key VK_TAB 0x0F) lalt_held)
   \<and> \<not> alt_tab_menu_is_visible
     (hook_head plain_cfg 1000 False WM_KEYDOWN (physical_key VK_TAB 0x0F) ctrl_alt_held)
   \<and> \<not> alt_tab_menu_is_visible
     (hook_head plain_cfg 1000 False WM_KEYUP (physical_key VK_TAB 0x0F) lalt_held)
   \<and> \<not> alt_tab_menu_is_visible
     (hook_head plain_cfg 1000 False WM_KEYDOWN (physical_key VK_TAB 0x0F) idle_state)
   \<and> dwExtraInfo (ignored_key VK_TAB 0x0F) = KEYIGNORE
   \<and> \<not> alt_tab_menu_is_visible lalt_held
   \<and> alt_tab_menu_is_visible
       (snd (LowLevelKeybdProc plain_cfg 1000 False HC_ACTION WM_KEYDOWN
               (ignored_key VK_TAB 0x0F) lalt_held))
   \<and> snd (LowLevelKeybdProc plain_cfg 1000 False 3 WM_KEYDOWN
             (physical_key VK_TAB 0x0F) lalt_held) = lalt_held"
proof -
  note hd = alt_tab_menu_heuristic_sets_flag [THEN conjunct1]
  note ig = alt_tab_menu_heuristic_sets_flag
              [of _ _ _ _ "ignored_key VK_TAB 0x0F" lalt_held HC_ACTION,
               THEN conjunct2, THEN conjunct2, THEN conjunct1, THEN mp]
  note no = alt_tab_menu_heuristic_sets_flag
              [of _ _ _ _ _ _ 3, THEN conjunct2, THEN conjunct2, THEN conjunct2, THEN mp]
  have i: "HC_ACTION = HC_ACTION \<and> dwExtraInfo (ignored_key VK_TAB 0x0F) = KEYIGNORE
           \<and> \<not> alt_tab_menu_is_visible lalt_held"
    by (simp add: ignored_key_def lalt_held_def idle_state_def)
  have n: "3 \<noteq> HC_ACTION" by (simp add: vk_defs)
  show ?thesis
    unfolding hd ig [OF i] no [OF n]
    by (simp add: both_alt_held_def lalt_held_def ctrl_alt_held_def idle_state_def
          physical_key_def injected_key_def ignored_key_def is_key_up_def vk_defs)
qed

text \<open>
  Claim C8 as stated fails twice. With both ALT bits set (so not exactly one) a physical
  Tab key-down sets the flag. With the left ALT bit set an injected, hence non-physical,
  Tab key-down sets the flag as well.
\<close>

theorem alt_tab_menu_heuristic_counterexample:
  "g_modifiersLR_logical both_alt_held AND MOD_LALT \<noteq> 0
   \<and> g_modifiersLR_logical both_alt_held AND MOD_RALT \<noteq> 0
   \<and> \<not> alt_tab_menu_is_visible both_alt_held
   \<and> fst (EventIsPhysical 1000 (physical_key VK_TAB 0x0F) 0x0F False both_alt_held)
   \<and> alt_tab_menu_is_visible
       (snd (LowLevelKeybdProc plain_cfg 1000 False HC_ACTION WM_KEYDOWN
               (physical_key VK_TAB 0x0F) both_alt_held))
   \<and> \<not> alt_tab_menu_is_visible lalt_held
   \<and> \<not> fst (EventIsPhysical 1000 (injected_key VK_TAB 0x0F) 0x0F False lalt_held)
   \<and> alt_tab_menu_is_visible
       (snd (LowLevelKeybdProc plain_cfg 1000 False HC_ACTION WM_KEYDOWN
               (injected_key VK_TAB 0x0F) lalt_held))"
  by (simp add: LowLevelKeybdProc_def dispatch_def head_defs verdict_defs tracker_defs
        example_defs Let_def vk_defs)

lemma allow_modifier_or_neutral_toggle_kview [simp]:
  "kview (snd (allow_modifier_or_neutral_toggle l s)) = kview s"
  by (simp add: allow_modifier_or_neutral_toggle_def AllowKeyToGoToSystem_def
        SuppressThisKey_def)

lemma allow_modifier_or_neutral_toggle_fst_key_down:
  "\<not> l_key_up l \<Longrightarrow>
   fst (allow_modifier_or_neutral_toggle l s) =
     (if (as_modifiersLR (deref s (l_pThisKey l)) \<noteq> 0
          \<or> toggle_neutral s (deref s (l_pThisKey l)))
         \<and> \<not> toggle_is_forced (l_pEvent l) s
      then PassedOn else Suppressed)"
  by (simp add: allow_modifier_or_neutral_toggle_def AllowKeyToGoToSystem_def
        SuppressThisKey_def AllowIt_fst_key_down)

lemma deref_other_updates [simp]:
  "deref (s\<lparr>pPrefixKey := x\<rparr>) q = deref s q"
  "deref (s\<lparr>alt_tab_menu_is_visible := b\<rparr>) q = deref s q"
  "deref (s\<lparr>posted := ps\<rparr>) q = deref s q"
  "deref (s\<lparr>disguise_next_lwin_up := b\<rparr>) q = deref s q"
  "deref (s\<lparr>disguise_next_rwin_up := b\<rparr>) q = deref s q"
  "deref (s\<lparr>disguise_next_lalt_up := b\<rparr>) q = deref s q"
  "deref (s\<lparr>disguise_next_ralt_up := b\<rparr>) q = deref s q"
  by (cases q; simp)+

lemma Case1_pPrefixKey: "pPrefixKey (snd (Case1 l s)) = Some (l_pThisKey l)"
  using kview_fields(4) [OF allow_modifier_or_neutral_toggle_kview]
  by (simp add: Case1_def Let_def)

lemma Case1_deref:
  "deref (snd (Case1 l s)) q =
     (if q = l_pThisKey l then (deref s q)\<lparr>was_just_used := UNUSED\<rparr> else deref s q)"
  by (simp add: Case1_def Let_def deref_kview [OF allow_modifier_or_neutral_toggle_kview]
        upd_prefix_def)


lemma toggle_is_forced_other_updates [simp]:
  "toggle_is_forced pEvent (s\<lparr>pPrefixKey := x\<rparr>) = toggle_is_forced pEvent s"
  by (simp add: toggle_is_forced_def split: option.split)

lemma toggle_neutral_other_updates [simp]:
  "toggle_neutral (s\<lparr>pPrefixKey := x\<rparr>) k = toggle_neutral s k"
  "toggle_neutral (upd_key p f s) k = toggle_neutral s k"
  "toggle_neutral (upd_prefix f s) k = toggle_neutral s k"
  "toggle_neutral s (k\<lparr>is_down := b\<rparr>) = toggle_neutral s k"
  "toggle_neutral s (k\<lparr>was_just_used := w\<rparr>) = toggle_neutral s k"
  "toggle_neutral s (k\<lparr>down_performed_action := b\<rparr>) = toggle_neutral s k"
  by (simp_all add: toggle_neutral_def split: option.split)

lemma Case1_fst_key_down:
  "\<not> l_key_up l \<Longrightarrow>
   fst (Case1 l s) =
     (if (as_modifiersLR (deref s (l_pThisKey l)) \<noteq> 0
          \<or> toggle_neutral s (deref s (l_pThisKey l)))
         \<and> \<not> toggle_is_forced (l_pEvent l) s
      then PassedOn else Suppressed)"
  by (simp add: Case1_def Let_def allow_modifier_or_neutral_toggle_fst_key_down upd_prefix_def
        toggle_is_forced_upd_key)

subsection \<open>C2: Case 1, a prefix key goes down\<close>

text \<open>
  Claim C2, amended. For every key-down that arrives with \<^verbatim>\<open>HC_ACTION\<close>, does not
  carry the ignore tag, and whose record \<^verbatim>\<open>pThisKey\<close> is configured as a prefix and
  is not already the active prefix (so the event is not the auto-repeat of the held
  prefix), when no prefix is active or the key is not also a suffix: the hook installs
  that record as the active prefix, resets its \<^verbatim>\<open>was_just_used\<close> to unused, and takes
  the allow path iff the record is a modifier or a toggleable key whose state is
  \<^verbatim>\<open>NEUTRAL\<close>; the verdict is pass-through iff it takes the allow path and
  \<^verbatim>\<open>kvk[vkCode]\<close> has no forced (non-neutral) toggle state, and suppression
  otherwise.
\<close>

theorem prefix_key_down_installs_prefix:
  assumes tag: "dwExtraInfo pEvent \<noteq> KEYIGNORE"
    and down: "wParam \<noteq> WM_KEYUP" "wParam \<noteq> WM_SYSKEYUP"
    and pre: "used_as_prefix (deref s (this_key cfg pEvent s))"
    and rep: "pPrefixKey s \<noteq> Some (this_key cfg pEvent s)"
    and free: "pPrefixKey s = None \<or> \<not> used_as_suffix (deref s (this_key cfg pEvent s))"
  shows "pPrefixKey (snd (LowLevelKeybdProc cfg now numlock_on HC_ACTION wParam pEvent s))
           = Some (this_key cfg pEvent s)
     \<and> was_just_used (deref (snd (LowLevelKeybdProc cfg now numlock_on HC_ACTION wParam pEvent s))
                            (this_key cfg pEvent s)) = UNUSED
     \<and> fst (LowLevelKeybdProc cfg now numlock_on HC_ACTION wParam pEvent s)
           = (if (as_modifiersLR (deref s (this_key cfg pEvent s)) \<noteq> 0
                  \<or> toggle_neutral s (deref s (this_key cfg pEvent s)))
                 \<and> \<not> toggle_is_forced pEvent s
              then PassedOn else Suppressed)"
proof -
  define l where "l = hook_locals cfg now wParam pEvent s"
  define s4 where "s4 = hook_head cfg now numlock_on wParam pEvent s"
  define p where "p = this_key cfg pEvent s"
  define s1 where "s1 = (if pPrefixKey s4 \<noteq> None \<and> as_modifiersLR (deref s4 p) = 0
        then upd_prefix (\<lambda>k. k\<lparr>was_just_used := AS_PREFIX\<rparr>) s4 else s4)"
  define s3 where "s3 = upd_key p (\<lambda>k. k\<lparr>is_down := True\<rparr>) s1"
  have l: "\<not> l_key_up l" "l_pThisKey l = p" "l_pEvent l = pEvent"
    using down by (simp_all add: l_def hook_locals_def is_key_up_def p_def)
  have p4: "pPrefixKey s4 = pPrefixKey s"
    unfolding s4_def by (rule hook_head_fields)
  have ts4: "toggle_store s4 = toggle_store s"
    unfolding s4_def by (rule hook_head_fields)
  have kv4: "kvk s4 = kvk s"
    unfolding s4_def by (rule hook_head_fields)
  have d4: "deref s4 q = deref s q" for q by (simp add: s4_def)
  have run: "LowLevelKeybdProc cfg now numlock_on HC_ACTION wParam pEvent s = dispatch l s4"
    using tag down
    by (simp add: LowLevelKeybdProc_unfold disguise_is_armed_def is_key_up_def l_def s4_def)
  have disp: "dispatch l s4 = Case1 l s3"
    unfolding s3_def s1_def l(2) [symmetric]
    by (rule dispatch_Case1) (use l pre rep free in \<open>simp_all add: p4 d4 p_def\<close>)
  have d3: "deref s3 p = (deref s p)\<lparr>is_down := True\<rparr>"
    using rep by (simp add: s3_def s1_def p4 d4 p_def)
  have tn3: "toggle_neutral s3 k = toggle_neutral s k" for k
    by (simp add: s3_def s1_def toggle_neutral_def ts4 split: option.split)
  have tf3: "toggle_is_forced pEvent s3 = toggle_is_forced pEvent s"
    by (simp add: s3_def s1_def toggle_is_forced_upd_key toggle_is_forced_upd_prefix
          toggle_is_forced_eq [OF kv4 ts4])
  have r1: "pPrefixKey (snd (Case1 l s3)) = Some p"
    using Case1_pPrefixKey [of l s3] l by simp
  have r2: "was_just_used (deref (snd (Case1 l s3)) p) = UNUSED"
    using l by (simp add: Case1_deref)
  have r3: "fst (Case1 l s3) =
      (if (as_modifiersLR (deref s p) \<noteq> 0 \<or> toggle_neutral s (deref s p))
          \<and> \<not> toggle_is_forced pEvent s then PassedOn else Suppressed)"
    using l by (simp add: Case1_fst_key_down d3 tn3 tf3)
  show ?thesis
    unfolding run disp p_def [symmetric] using r1 r2 r3 by simp
qed

theorem prefix_key_down_installs_prefix_witness:
  "dwExtraInfo (physical_key VK_CAPITAL 0x3A) \<noteq> KEYIGNORE
   \<and> this_key plain_cfg (physical_key VK_CAPITAL 0x3A) caps_prefix_idle = KVK VK_CAPITAL
   \<and> used_as_prefix (kvk caps_prefix_idle VK_CAPITAL)
   \<and> pPrefixKey caps_prefix_idle = None
   \<and> pPrefixKey (snd (LowLevelKeybdProc plain_cfg 1000 False HC_ACTION WM_KEYDOWN
                        (physical_key VK_CAPITAL 0x3A) caps_prefix_idle)) = Some (KVK VK_CAPITAL)
   \<and> was_just_used (kvk (snd (LowLevelKeybdProc plain_cfg 1000 False HC_ACTION WM_KEYDOWN
                        (physical_key VK_CAPITAL 0x3A) caps_prefix_idle)) VK_CAPITAL) = UNUSED
   \<and> fst (LowLevelKeybdProc plain_cfg 1000 False HC_ACTION WM_KEYDOWN
                        (physical_key VK_CAPITAL 0x3A) caps_prefix_idle) = PassedOn"
proof -
  let ?e = "physical_key VK_CAPITAL 0x3A"
  have tk: "this_key plain_cfg ?e caps_prefix_idle = KVK VK_CAPITAL"
    by (simp add: this_key_def normalize_sc_def example_defs example3_defs Let_def vk_defs)
  have h1: "dwExtraInfo ?e \<noteq> KEYIGNORE" by (simp add: physical_key_def vk_defs)
  have h2: "WM_KEYDOWN \<noteq> WM_KEYUP" "WM_KEYDOWN \<noteq> WM_SYSKEYUP" by (simp_all add: vk_defs)
  have h3: "used_as_prefix (deref caps_prefix_idle (this_key plain_cfg ?e caps_prefix_idle))"
    unfolding tk by (simp add: example_defs example3_defs)
  have h4: "pPrefixKey caps_prefix_idle \<noteq> Some (this_key plain_cfg ?e caps_prefix_idle)"
    unfolding tk by (simp add: example_defs example3_defs)
  have h5: "pPrefixKey caps_prefix_idle = None
            \<or> \<not> used_as_suffix (deref caps_prefix_idle (this_key plain_cfg ?e caps_prefix_idle))"
    by (simp add: example_defs example3_defs)
  have v: "toggle_neutral caps_prefix_idle (kvk caps_prefix_idle VK_CAPITAL)"
    "\<not> toggle_is_forced ?e caps_prefix_idle"
    by (simp_all add: toggle_neutral_def toggle_is_forced_def example_defs example3_defs)
  have h3': "used_as_prefix (kvk caps_prefix_idle VK_CAPITAL)"
    and h5': "pPrefixKey caps_prefix_idle = None"
    by (simp_all add: example_defs example3_defs)
  have d: "deref s (KVK VK_CAPITAL) = kvk s VK_CAPITAL" for s by simp
  show ?thesis
    using prefix_key_down_installs_prefix [OF h1 h2 h3 h4 h5, of 1000 False, unfolded tk d]
      h1 tk h3' h5' v
    by simp
qed

text \<open>
  Claim C2 as stated fails in three ways. A key-down of the prefix key that carries
  \<^verbatim>\<open>KEYIGNORE\<close> is passed on and installs nothing. The auto-repeat of the held
  prefix CapsLock (not a suffix, toggle neutral) is suppressed and leaves
  \<^verbatim>\<open>was_just_used\<close> at \<^verbatim>\<open>AS_PREFIX\<close>. A prefix record that is a modifier and
  whose toggle variable is forced is suppressed by \<^verbatim>\<open>AllowIt\<close>.
\<close>

theorem prefix_key_down_counterexample:
  "pPrefixKey caps_prefix_idle = None
   \<and> used_as_prefix (kvk caps_prefix_idle VK_CAPITAL)
   \<and> pPrefixKey (snd (LowLevelKeybdProc plain_cfg 1000 False HC_ACTION WM_KEYDOWN
                        (ignored_key VK_CAPITAL 0x3A) caps_prefix_idle)) = None
   \<and> used_as_prefix (kvk caps_prefix_held VK_CAPITAL)
   \<and> \<not> used_as_suffix (kvk caps_prefix_held VK_CAPITAL)
   \<and> toggle_neutral caps_prefix_held (kvk caps_prefix_held VK_CAPITAL)
   \<and> fst (LowLevelKeybdProc plain_cfg 1000 False HC_ACTION WM_KEYDOWN
             (physical_key VK_CAPITAL 0x3A) caps_prefix_held) = Suppressed
   \<and> was_just_used (kvk (snd (LowLevelKeybdProc plain_cfg 1000 False HC_ACTION WM_KEYDOWN
             (physical_key VK_CAPITAL 0x3A) caps_prefix_held)) VK_CAPITAL) = AS_PREFIX
   \<and> used_as_prefix (kvk shift_prefix_forced VK_LSHIFT)
   \<and> pPrefixKey shift_prefix_forced = None
   \<and> as_modifiersLR (kvk shift_prefix_forced VK_LSHIFT) \<noteq> 0
   \<and> fst (LowLevelKeybdProc plain_cfg 1000 False HC_ACTION WM_KEYDOWN
             (physical_key VK_LSHIFT 0x2A) shift_prefix_forced) = Suppressed"
  by (simp add: LowLevelKeybdProc_def dispatch_def Case1_def upd_prefix_def head_defs
        verdict_defs tracker_defs example_defs example3_defs Let_def vk_defs)

subsection \<open>Where the prefix slot is written\<close>

lemma ret_state_simps [simp]: "ret_state (Inl x) = snd x" "ret_state (Inr s) = s"
  by (simp_all add: ret_state_def)

lemma macro_kview [simp]:
  "kview (snd (AllowKeyToGoToSystem l s)) = kview s"
  "kview (snd (AllowKeyToGoToSystemButDisguiseWinAlt l s)) = kview s"
  "kview (snd (SuppressThisKey l s)) = kview s"
  by (simp_all add: AllowKeyToGoToSystem_def AllowKeyToGoToSystemButDisguiseWinAlt_def
        SuppressThisKey_def)

lemma macro_pPrefixKey [simp]:
  "pPrefixKey (snd (AllowKeyToGoToSystem l s)) = pPrefixKey s"
  "pPrefixKey (snd (AllowKeyToGoToSystemButDisguiseWinAlt l s)) = pPrefixKey s"
  "pPrefixKey (snd (SuppressThisKey l s)) = pPrefixKey s"
  "pPrefixKey (snd (allow_modifier_or_neutral_toggle l s)) = pPrefixKey s"
  by (rule kview_fields, simp)+

lemma pPrefixKey_if: "pPrefixKey (if c then a else b) = (if c then pPrefixKey a else pPrefixKey b)"
  by simp

lemma arm_disguise_pPrefixKey [simp]: "pPrefixKey (arm_disguise s) = pPrefixKey s"
  by (simp add: arm_disguise_def Let_def)

lemma prefixed_alt_tab_pPrefixKey [simp]:
  "pPrefixKey (snd (prefixed_alt_tab l h s)) = pPrefixKey s"
  by (simp add: prefixed_alt_tab_def Let_def pPrefixKey_if cong del: if_weak_cong)



lemma ret_state_if: "ret_state (if c then a else b) = (if c then ret_state a else ret_state b)"
  by simp

lemma Case3_tail_pPrefixKey:
  "pPrefixKey (ret_state
     (if toggle_neutral s3 k then
        (if was_just_used k = AS_PREFIX_FOR_HOTKEY then
           Inl (SuppressThisKey l
                  (KeyEvent KEYUP vk sc (KeyEvent KEYDOWN vk sc (KeyEvent KEYUP vk sc s3))))
         else if was_just_used k = AS_PREFIX then Inl (AllowKeyToGoToSystem l s3)
         else (if \<not> used_as_suffix k then Inl (allow_modifier_or_neutral_toggle l s3)
               else if \<not> w then Inl (AllowKeyToGoToSystem l s3)
               else Inr s3))
      else if was_just_used k \<noteq> UNUSED then
        (if as_modifiersLR k \<noteq> 0 then
           Inl (if was_just_used k = AS_PREFIX_FOR_HOTKEY
                then AllowKeyToGoToSystemButDisguiseWinAlt l s3
                else AllowKeyToGoToSystem l s3)
         else Inl (SuppressThisKey l s3))
      else (if \<not> used_as_suffix k then Inl (allow_modifier_or_neutral_toggle l s3)
            else if \<not> w then Inl (AllowKeyToGoToSystem l s3)
            else Inr s3))) = pPrefixKey s3"
  by simp

lemma Case3_pPrefixKey:
  "pPrefixKey (ret_state (Case3 l w s))
     = (if pPrefixKey s = Some (l_pThisKey l) then None else pPrefixKey s)"
  unfolding Case3_def Let_def
  by (simp only: Case3_tail_pPrefixKey) simp



lemma alt_tab_navigate_pPrefixKey [simp]:
  "pPrefixKey (ret_state (alt_tab_navigate l h s)) = pPrefixKey s"
  by (simp add: alt_tab_navigate_def Let_def pPrefixKey_if ret_state_if cong del: if_weak_cong)

lemma alt_tab_menu_pPrefixKey [simp]:
  "pPrefixKey (ret_state (alt_tab_menu l h s)) = pPrefixKey s"
  by (simp add: alt_tab_menu_def Let_def pPrefixKey_if ret_state_if cong del: if_weak_cong)

lemma perform_hotkey_pPrefixKey [simp]:
  "pPrefixKey (ret_state (perform_hotkey l h s)) = pPrefixKey s"
  by (simp add: perform_hotkey_def pPrefixKey_if ret_state_if cong del: if_weak_cong)

lemma hotkey_fired_pPrefixKey [simp]:
  "pPrefixKey (snd (hotkey_fired l ns s)) = pPrefixKey s"
  by (simp add: hotkey_fired_def Let_def pPrefixKey_if if_distrib [where f = snd]
        cong del: if_weak_cong)

lemma perform_then_fired_pPrefixKey:
  "pPrefixKey (snd (case perform_hotkey l h s of Inl r \<Rightarrow> r | Inr s1 \<Rightarrow> hotkey_fired l ns s1))
     = pPrefixKey s"
  using perform_hotkey_pPrefixKey [of l h s]
  by (cases "perform_hotkey l h s") simp_all

lemma Case2_pPrefixKey [simp]: "pPrefixKey (snd (Case2 l d s)) = pPrefixKey s"
  by (simp add: Case2_def)

lemma prefix_lookup_vk_pPrefixKey:
  "pPrefixKey (snd (prefix_lookup_vk l s)) = pPrefixKey s
   \<or> (\<exists>m \<in> set (ModifierVK (deref s (l_pThisKey l))).
         is_down (kvk s (fst m)) \<and> pPrefixKey (snd (prefix_lookup_vk l s)) = Some (KVK (fst m)))"
proof (cases "find (\<lambda>m. is_down (kvk s (fst m))) (ModifierVK (deref s (l_pThisKey l)))")
  case None
  then show ?thesis by (simp add: prefix_lookup_vk_def)
next
  case (Some m)
  then have "m \<in> set (ModifierVK (deref s (l_pThisKey l)))" "is_down (kvk s (fst m))"
    by (auto simp add: find_Some_iff)
  with Some show ?thesis by (auto simp add: prefix_lookup_vk_def Let_def)
qed

lemma prefix_lookup_vk_frame:
  "ksc (snd (prefix_lookup_vk l s)) = ksc s"
  "ModifierSC (deref (snd (prefix_lookup_vk l s)) p) = ModifierSC (deref s p)"
  by (cases p; simp add: prefix_lookup_vk_def Let_def upd_prefix_def split: option.split)+

lemma prefix_lookup_sc_pPrefixKey:
  "pPrefixKey (snd (prefix_lookup_sc l s)) = pPrefixKey s
   \<or> (\<exists>m \<in> set (ModifierSC (deref s (l_pThisKey l))).
         is_down (ksc s (fst m)) \<and> pPrefixKey (snd (prefix_lookup_sc l s)) = Some (KSC (fst m)))"
proof (cases "find (\<lambda>m. is_down (ksc s (fst m))) (ModifierSC (deref s (l_pThisKey l)))")
  case None
  then show ?thesis by (simp add: prefix_lookup_sc_def)
next
  case (Some m)
  then have "m \<in> set (ModifierSC (deref s (l_pThisKey l)))" "is_down (ksc s (fst m))"
    by (auto simp add: find_Some_iff)
  with Some show ?thesis by (auto simp add: prefix_lookup_sc_def Let_def)
qed

lemma prefix_lookup_pPrefixKey:
  "pPrefixKey (snd (prefix_lookup l s)) = pPrefixKey s
   \<or> (\<exists>m \<in> set (ModifierVK (deref s (l_pThisKey l))).
         is_down (kvk s (fst m)) \<and> pPrefixKey (snd (prefix_lookup l s)) = Some (KVK (fst m)))
   \<or> (\<exists>m \<in> set (ModifierSC (deref s (l_pThisKey l))).
         is_down (ksc s (fst m)) \<and> pPrefixKey (snd (prefix_lookup l s)) = Some (KSC (fst m)))"
proof (cases "fst (fst (prefix_lookup_vk l s)) = HOTKEY_ID_INVALID")
  case False
  then show ?thesis
    using prefix_lookup_vk_pPrefixKey [of l s] by (auto simp add: prefix_lookup_def Let_def)
next
  case True
  let ?s1 = "snd (prefix_lookup_vk l s)"
  have e: "pPrefixKey (snd (prefix_lookup l s)) = pPrefixKey (snd (prefix_lookup_sc l ?s1))"
    using True by (simp add: prefix_lookup_def Let_def split: option.split)
  show ?thesis
    using prefix_lookup_sc_pPrefixKey [of l ?s1] prefix_lookup_vk_pPrefixKey [of l s]
    unfolding e prefix_lookup_vk_frame
    by auto
qed

lemma Case4_pPrefixKey:
  "pPrefixKey (snd (Case4 l s)) =
     (if pPrefixKey s \<noteq> None \<and> \<not> l_key_up l then pPrefixKey (snd (prefix_lookup l s))
      else pPrefixKey s)"
  by (simp add: Case4_def Let_def perform_then_fired_pPrefixKey pPrefixKey_if
        if_distrib [where f = snd] cong del: if_weak_cong)



lemma Case3_then_Case4_pPrefixKey:
  "l_key_up l \<Longrightarrow>
   pPrefixKey (snd (case Case3 l w s of Inl r \<Rightarrow> r | Inr s4 \<Rightarrow> Case4 l s4))
     = pPrefixKey (ret_state (Case3 l w s))"
  by (cases "Case3 l w s") (simp_all add: Case4_pPrefixKey)

lemma dispatch_unfold:
  "dispatch l s =
     (let p = l_pThisKey l; ku = l_key_up l;
          s1 = (if pPrefixKey s \<noteq> None \<and> \<not> ku \<and> as_modifiersLR (deref s p) = 0
                then upd_prefix (\<lambda>k. k\<lparr>was_just_used := AS_PREFIX\<rparr>) s else s);
          s3 = upd_key p (\<lambda>k. k\<lparr>is_down := \<not> ku\<rparr>)
                 (if ku then upd_key p (\<lambda>k. k\<lparr>down_performed_action := False\<rparr>) s1 else s1)
      in if pPrefixKey s = Some p \<and> \<not> ku then
           (if as_modifiersLR (deref s p) \<noteq> 0 then AllowKeyToGoToSystem l s
            else SuppressThisKey l s)
         else if \<not> used_as_prefix (deref s1 p) \<and> \<not> used_as_suffix (deref s1 p)
           then AllowKeyToGoToSystem l s1
         else if used_as_prefix (deref s3 p) \<and> \<not> ku
                 \<and> (pPrefixKey s3 = None \<or> \<not> used_as_suffix (deref s3 p))
           then Case1 l s3
         else if used_as_suffix (deref s3 p) \<and> pPrefixKey s3 \<noteq> Some p \<and> ku
           then Case2 l (down_performed_action (deref s1 p)) s3
         else if used_as_prefix (deref s3 p) \<and> ku then
           (case Case3 l (is_down (deref s1 p)) s3 of Inl r \<Rightarrow> r | Inr s4 \<Rightarrow> Case4 l s4)
         else Case4 l s3)"
  unfolding dispatch_def Let_def by (rule refl)



lemma dispatch_prefix_slot:
  assumes b: "pPrefixKey (snd (dispatch l s)) = Some b"
    and nb: "pPrefixKey s \<noteq> Some b"
  shows "\<not> l_key_up l
     \<and> ((b = l_pThisKey l \<and> used_as_prefix (deref s b)
          \<and> (pPrefixKey s = None \<or> \<not> used_as_suffix (deref s b)))
        \<or> (pPrefixKey s \<noteq> None \<and> used_as_suffix (deref s (l_pThisKey l))
           \<and> ((\<exists>m \<in> set (ModifierVK (deref s (l_pThisKey l))). b = KVK (fst m))
              \<or> (\<exists>m \<in> set (ModifierSC (deref s (l_pThisKey l))). b = KSC (fst m)))
           \<and> (is_down (deref s b) \<or> b = l_pThisKey l)))"
proof -
  define p where "p = l_pThisKey l"
  define ku where "ku = l_key_up l"
  define s1 where "s1 = (if pPrefixKey s \<noteq> None \<and> \<not> ku \<and> as_modifiersLR (deref s p) = 0
                then upd_prefix (\<lambda>k. k\<lparr>was_just_used := AS_PREFIX\<rparr>) s else s)"
  define s3 where "s3 = upd_key p (\<lambda>k. k\<lparr>is_down := \<not> ku\<rparr>)
                 (if ku then upd_key p (\<lambda>k. k\<lparr>down_performed_action := False\<rparr>) s1 else s1)"
  have pp1: "pPrefixKey s1 = pPrefixKey s" by (simp add: s1_def)
  have pp3: "pPrefixKey s3 = pPrefixKey s" by (simp add: s3_def pp1)
  have c1: "used_as_prefix (deref s1 q) = used_as_prefix (deref s q)"
    "used_as_suffix (deref s1 q) = used_as_suffix (deref s q)" for q
    by (simp_all add: s1_def)
  have c3: "used_as_prefix (deref s3 q) = used_as_prefix (deref s q)"
    "used_as_suffix (deref s3 q) = used_as_suffix (deref s q)"
    "ModifierVK (deref s3 q) = ModifierVK (deref s q)"
    "ModifierSC (deref s3 q) = ModifierSC (deref s q)" for q
    by (simp_all add: s3_def s1_def)
  have dn3: "is_down (deref s3 q) \<Longrightarrow> \<not> ku \<Longrightarrow> is_down (deref s q) \<or> q = p" for q
    by (simp add: s3_def s1_def split: if_splits)
  have un: "dispatch l s =
     (if pPrefixKey s = Some p \<and> \<not> ku then
           (if as_modifiersLR (deref s p) \<noteq> 0 then AllowKeyToGoToSystem l s
            else SuppressThisKey l s)
         else if \<not> used_as_prefix (deref s p) \<and> \<not> used_as_suffix (deref s p)
           then AllowKeyToGoToSystem l s1
         else if used_as_prefix (deref s p) \<and> \<not> ku
                 \<and> (pPrefixKey s = None \<or> \<not> used_as_suffix (deref s p))
           then Case1 l s3
         else if used_as_suffix (deref s p) \<and> pPrefixKey s \<noteq> Some p \<and> ku
           then Case2 l (down_performed_action (deref s1 p)) s3
         else if used_as_prefix (deref s p) \<and> ku then
           (case Case3 l (is_down (deref s1 p)) s3 of Inl r \<Rightarrow> r | Inr s4 \<Rightarrow> Case4 l s4)
         else Case4 l s3)"
    unfolding dispatch_unfold Let_def p_def [symmetric] ku_def [symmetric]
      s1_def [symmetric] s3_def [symmetric] c1 c3 pp3
    by (rule refl)
  consider
    (rep) "pPrefixKey s = Some p \<and> \<not> ku"
  | (plain) "\<not> (pPrefixKey s = Some p \<and> \<not> ku)"
      "\<not> used_as_prefix (deref s p) \<and> \<not> used_as_suffix (deref s p)"
  | (case1) "\<not> (pPrefixKey s = Some p \<and> \<not> ku)"
      "\<not> (\<not> used_as_prefix (deref s p) \<and> \<not> used_as_suffix (deref s p))"
      "used_as_prefix (deref s p) \<and> \<not> ku
         \<and> (pPrefixKey s = None \<or> \<not> used_as_suffix (deref s p))"
  | (case2) "\<not> (pPrefixKey s = Some p \<and> \<not> ku)"
      "\<not> (\<not> used_as_prefix (deref s p) \<and> \<not> used_as_suffix (deref s p))"
      "\<not> (used_as_prefix (deref s p) \<and> \<not> ku
         \<and> (pPrefixKey s = None \<or> \<not> used_as_suffix (deref s p)))"
      "used_as_suffix (deref s p) \<and> pPrefixKey s \<noteq> Some p \<and> ku"
  | (case3) "\<not> (pPrefixKey s = Some p \<and> \<not> ku)"
      "\<not> (\<not> used_as_prefix (deref s p) \<and> \<not> used_as_suffix (deref s p))"
      "\<not> (used_as_prefix (deref s p) \<and> \<not> ku
         \<and> (pPrefixKey s = None \<or> \<not> used_as_suffix (deref s p)))"
      "\<not> (used_as_suffix (deref s p) \<and> pPrefixKey s \<noteq> Some p \<and> ku)"
      "used_as_prefix (deref s p) \<and> ku"
  | (case4) "\<not> (pPrefixKey s = Some p \<and> \<not> ku)"
      "\<not> (\<not> used_as_prefix (deref s p) \<and> \<not> used_as_suffix (deref s p))"
      "\<not> (used_as_prefix (deref s p) \<and> \<not> ku
         \<and> (pPrefixKey s = None \<or> \<not> used_as_suffix (deref s p)))"
      "\<not> (used_as_suffix (deref s p) \<and> pPrefixKey s \<noteq> Some p \<and> ku)"
      "\<not> (used_as_prefix (deref s p) \<and> ku)"
    by blast
  then show ?thesis
  proof cases
    case rep
    then have "pPrefixKey (snd (dispatch l s)) = pPrefixKey s" by (auto simp add: un)
    with b nb show ?thesis by simp
  next
    case plain
    then have "pPrefixKey (snd (dispatch l s)) = pPrefixKey s1" by (auto simp add: un pp1)
    with b nb pp1 show ?thesis by simp
  next
    case case1
    then have "dispatch l s = Case1 l s3" by (auto simp add: un)
    then have "b = p" using b by (simp add: Case1_pPrefixKey p_def)
    with case1 show ?thesis by (simp add: p_def ku_def)
  next
    case case2
    then have "pPrefixKey (snd (dispatch l s)) = pPrefixKey s3" by (auto simp add: un pp3)
    with b nb pp3 show ?thesis by simp
  next
    case case3
    then have ku: "l_key_up l" by (simp add: ku_def)
    from case3 have "dispatch l s =
        (case Case3 l (is_down (deref s1 p)) s3 of Inl r \<Rightarrow> r | Inr s4 \<Rightarrow> Case4 l s4)"
      by (auto simp add: un)
    then have "pPrefixKey (snd (dispatch l s))
        = (if pPrefixKey s3 = Some (l_pThisKey l) then None else pPrefixKey s3)"
      by (simp add: Case3_then_Case4_pPrefixKey [OF ku] Case3_pPrefixKey)
    with b nb pp3 show ?thesis by (simp split: if_splits)
  next
    case case4
    then have e: "dispatch l s = Case4 l s3" by (auto simp add: un)
    show ?thesis
    proof (cases "pPrefixKey s \<noteq> None \<and> \<not> ku")
      case False
      then have "pPrefixKey (snd (dispatch l s)) = pPrefixKey s3"
        by (auto simp add: e Case4_pPrefixKey pp3 ku_def)
      with b nb pp3 show ?thesis by simp
    next
      case True
      then have pl: "pPrefixKey (snd (prefix_lookup l s3)) = Some b"
        using b by (auto simp add: e Case4_pPrefixKey pp3 ku_def)
      from case4 True have suf: "used_as_suffix (deref s p)" by blast
      from prefix_lookup_pPrefixKey [of l s3] pl nb pp3
      consider (vk) m where "m \<in> set (ModifierVK (deref s3 p))" "is_down (kvk s3 (fst m))"
                 "b = KVK (fst m)"
        | (sc) m where "m \<in> set (ModifierSC (deref s3 p))" "is_down (ksc s3 (fst m))"
                 "b = KSC (fst m)"
        by (auto simp add: p_def)
      then show ?thesis
      proof cases
        case vk
        from vk(2,3) have "is_down (deref s3 b)" by simp
        then have "is_down (deref s b) \<or> b = p" using True dn3 [of b] by blast
        with vk True suf show ?thesis by (auto simp add: c3 p_def ku_def)
      next
        case sc
        from sc(2,3) have "is_down (deref s3 b)" by simp
        then have "is_down (deref s b) \<or> b = p" using True dn3 [of b] by blast
        with sc True suf show ?thesis by (auto simp add: c3 p_def ku_def)
      qed
    qed
  qed
qed

lemmas dispatch_defs = LowLevelKeybdProc_def dispatch_def Case1_def Case2_def Case3_def Case4_def
  disguised_key_up_def clear_disguise_flag_def prefix_lookup_def prefix_lookup_vk_def
  prefix_lookup_sc_def modifier_lookup_def arm_disguise_def perform_hotkey_def hotkey_fired_def
  GET_HOTKEY_ID_AND_FLAGS_def upd_prefix_def

lemma disguised_key_up_pPrefixKey [simp]:
  "pPrefixKey (snd (disguised_key_up l s)) = pPrefixKey s"
  by (simp add: disguised_key_up_def Let_def clear_disguise_flag_def)

lemmas run_defs = key_down_def chained_prefixes_def dispatch_defs head_defs verdict_defs
        tracker_defs example_defs Let_def vk_defs

subsection \<open>C3: changes of the prefix slot\<close>

text \<open>
  Claim C3, amended. The prefix slot is the single pointer \<^verbatim>\<open>pPrefixKey\<close>, so at most
  one prefix is active at any time. Whenever the processing of an event changes the slot
  from one key's record to a different key's record, the event is an untagged key-down
  delivered with \<^verbatim>\<open>HC_ACTION\<close>, and either (Case 1) the new prefix is the record of the
  pressed key, which is configured as a prefix and not as a suffix, or (Case 4) the pressed
  key is a suffix and the new prefix is a record named in its \<^verbatim>\<open>ModifierVK\<close> or
  \<^verbatim>\<open>ModifierSC\<close> list that is down (or is the pressed key itself). In the second case
  nothing is required of the new prefix: it may itself be configured as a suffix.
\<close>

theorem prefix_slot_change:
  assumes a: "pPrefixKey s = Some a"
    and b: "pPrefixKey (snd (LowLevelKeybdProc cfg now numlock_on code wParam pEvent s)) = Some b"
    and ab: "a \<noteq> b"
  shows "code = HC_ACTION \<and> dwExtraInfo pEvent \<noteq> KEYIGNORE \<and> \<not> is_key_up wParam
     \<and> ((b = this_key cfg pEvent s \<and> used_as_prefix (deref s b) \<and> \<not> used_as_suffix (deref s b))
        \<or> (used_as_suffix (deref s (this_key cfg pEvent s))
           \<and> ((\<exists>m \<in> set (ModifierVK (deref s (this_key cfg pEvent s))). b = KVK (fst m))
              \<or> (\<exists>m \<in> set (ModifierSC (deref s (this_key cfg pEvent s))). b = KSC (fst m)))
           \<and> (is_down (deref s b) \<or> b = this_key cfg pEvent s)))"
proof -
  define l where "l = hook_locals cfg now wParam pEvent s"
  define s4 where "s4 = hook_head cfg now numlock_on wParam pEvent s"
  have p4: "pPrefixKey s4 = pPrefixKey s" unfolding s4_def by (rule hook_head_fields)
  have d4: "deref s4 q = deref s q" for q by (simp add: s4_def)
  have l: "l_key_up l = is_key_up wParam" "l_pThisKey l = this_key cfg pEvent s"
    by (simp_all add: l_def hook_locals_def)
  have code: "code = HC_ACTION"
  proof (rule ccontr)
    assume "code \<noteq> HC_ACTION"
    then have "snd (LowLevelKeybdProc cfg now numlock_on code wParam pEvent s) = s"
      by (simp add: LowLevelKeybdProc_def)
    with a b ab show False by simp
  qed
  have tag: "dwExtraInfo pEvent \<noteq> KEYIGNORE"
  proof
    assume "dwExtraInfo pEvent = KEYIGNORE"
    then have "pPrefixKey (snd (LowLevelKeybdProc cfg now numlock_on code wParam pEvent s))
        = pPrefixKey s"
      unfolding code LowLevelKeybdProc_unfold by (simp add: hook_head_fields)
    with a b ab show False by simp
  qed
  have arm: "\<not> disguise_is_armed (vkCode pEvent) (is_key_up wParam) s"
  proof
    assume "disguise_is_armed (vkCode pEvent) (is_key_up wParam) s"
    then have "pPrefixKey (snd (LowLevelKeybdProc cfg now numlock_on code wParam pEvent s))
        = pPrefixKey s"
      unfolding code LowLevelKeybdProc_unfold using tag by (simp add: hook_head_fields)
    with a b ab show False by simp
  qed
  have run: "LowLevelKeybdProc cfg now numlock_on code wParam pEvent s = dispatch l s4"
    unfolding code LowLevelKeybdProc_unfold using tag arm by (simp add: l_def s4_def)
  have b': "pPrefixKey (snd (dispatch l s4)) = Some b" using b by (simp add: run)
  have nb: "pPrefixKey s4 \<noteq> Some b" using a ab by (simp add: p4)
  show ?thesis
    using dispatch_prefix_slot [OF b' nb] a code tag
    by (simp add: l d4 p4)
qed

text \<open>With F1 held as the prefix, pressing the pure prefix F4 moves the slot to F4 by
  Case 1.\<close>

theorem prefix_slot_change_witness:
  "pPrefixKey f1_held = Some (KVK VK_F1)
   \<and> pPrefixKey (key_down VK_F4 0x3E f1_held) = Some (KVK VK_F4)
   \<and> this_key plain_cfg (physical_key VK_F4 0x3E) f1_held = KVK VK_F4
   \<and> used_as_prefix (kvk f1_held VK_F4) \<and> \<not> used_as_suffix (kvk f1_held VK_F4)"
proof -
  have h1: "pPrefixKey f1_held = Some (KVK VK_F1)"
    by (simp add: f1_held_def run_defs)
  have h2: "pPrefixKey (snd (LowLevelKeybdProc plain_cfg 1000 False HC_ACTION WM_KEYDOWN
               (physical_key VK_F4 0x3E) f1_held)) = Some (KVK VK_F4)"
    by (simp add: f1_held_def run_defs)
  have h3: "KVK VK_F1 \<noteq> KVK VK_F4" by (simp add: vk_defs)
  have tk: "this_key plain_cfg (physical_key VK_F4 0x3E) f1_held = KVK VK_F4"
    by (simp add: this_key_def f1_held_def run_defs)
  have ns: "\<not> used_as_suffix (kvk f1_held VK_F4)" "\<not> is_down (kvk f1_held VK_F4)"
    "ModifierVK (kvk f1_held VK_F4) = []" "ModifierSC (kvk f1_held VK_F4) = []"
    by (simp_all add: f1_held_def run_defs)
  show ?thesis
    using prefix_slot_change [OF h1 h2 h3, unfolded tk] h1 h2 tk ns
    by (simp add: key_down_def)
qed

text \<open>
  Claim C3 as stated requires the newly installed prefix not to be a suffix. From the idle
  state, F1 down, F2 down, F3 down: the first installs F1, the second fires hotkey 1 and
  leaves F1 in the slot, the third finds F2 down in the \<^verbatim>\<open>ModifierVK\<close> list of F3 and
  rebinds the slot to F2, which is configured as a suffix, while F1 is still held.
\<close>

theorem prefix_slot_change_counterexample:
  "pPrefixKey f1_f2_held = Some (KVK VK_F1)
   \<and> is_down (kvk f1_f2_held VK_F1)
   \<and> pPrefixKey (key_down VK_F3 0x3D f1_f2_held) = Some (KVK VK_F2)
   \<and> used_as_suffix (kvk (key_down VK_F3 0x3D f1_f2_held) VK_F2)
   \<and> posted (key_down VK_F3 0x3D f1_f2_held) = [(1, 0), (2, 0)]"
  by (simp add: f1_f2_held_def f1_held_def run_defs)

end
